theory Spec2Isabelle
  imports Main
begin

section \<open>Data model of the quiz application (src/index.tsx)\<close>

text \<open>
  The TypeScript interfaces \<open>MCQ\<close>, \<open>Quiz\<close> and \<open>StudentResult\<close> become records.
  An option is its text (\<open>type Option = string\<close>). An optional property
  (\<open>explanation?\<close>) and a property that may be read as \<open>undefined\<close> is an
  \<open>option\<close>; an answer of type \<open>Option | null\<close> is a \<open>string option\<close> with
  \<open>None\<close> for \<open>null\<close>. JavaScript numbers that hold counts, indices, minutes and
  milliseconds are integers here; where the code computes with them beyond the range
  in which every integer is a double (the deadline of the timer), the rounding of
  the double is written out (\<open>js_num\<close>).
\<close>

type_synonym Option' = string

record MCQ =
  question :: string
  options :: "Option' list"
  correctAnswer :: Option'
  explanation :: "string option"

record Quiz =
  id' :: string
  title :: string
  questions :: "MCQ list"
  duration :: int

record StudentResult =
  quizId :: string
  studentName :: "string option"
  studentRoll :: "string option"
  studentEmail :: "string option"
  score :: int
  total :: int
  answers :: "Option' option list"

subsection \<open>JavaScript arrays\<close>

text \<open>
  \<open>xs[i]\<close> reads \<open>undefined\<close> outside the array: \<open>js_get\<close> returns \<open>None\<close> there.
  \<open>xs[i] = v\<close> overwrites inside the array, appends (after holes) beyond its end and
  leaves the elements alone for a negative index. A hole of an answers array is
  written \<open>None\<close>: like \<open>null\<close>, it is not \<open>===\<close> to any option text.
\<close>

definition js_get :: "'a list \<Rightarrow> int \<Rightarrow> 'a option" where
  "js_get xs i = (if 0 \<le> i \<and> nat i < length xs then Some (xs ! nat i) else None)"

definition js_set :: "'a option list \<Rightarrow> int \<Rightarrow> 'a option \<Rightarrow> 'a option list" where
  "js_set xs i v =
     (if i < 0 then xs
      else if nat i < length xs then xs[nat i := v]
      else xs @ replicate (nat i - length xs) None @ [v])"

subsection \<open>JSON values and the stored layout\<close>

text \<open>
  \<open>localStorage\<close> holds the texts that \<open>JSON.stringify\<close> prints and \<open>JSON.parse\<close>
  reads back. The model keeps the JSON value such a text denotes: the functions
  \<open>json_of_*\<close> are \<open>JSON.stringify\<close> on the application's types (a property whose
  value is \<open>undefined\<close> is left out, \<open>null\<close> is printed as \<open>null\<close>), and the
  functions \<open>*_of_json\<close> read a parsed value at the static type of the field it is
  assigned to. An entry of a stored object that does not have the shape of that
  type has no counterpart in the typed model and is left out.
\<close>

datatype json =
    JNull
  | JNum int
  | JStr string
  | JArr "json list"
  | JObj "string \<Rightarrow> json option"

definition opt_field :: "string \<Rightarrow> string option \<Rightarrow> (string \<rightharpoonup> json)" where
  "opt_field k v = (case v of None \<Rightarrow> Map.empty | Some x \<Rightarrow> [k \<mapsto> JStr x])"

fun str_of_json :: "json \<Rightarrow> string option" where
  "str_of_json (JStr s) = Some s"
| "str_of_json _ = None"

fun opt_str_of_json :: "json option \<Rightarrow> string option option" where
  "opt_str_of_json None = Some None"
| "opt_str_of_json (Some (JStr s)) = Some (Some s)"
| "opt_str_of_json (Some _) = None"

fun json_of_answer :: "Option' option \<Rightarrow> json" where
  "json_of_answer None = JNull"
| "json_of_answer (Some a) = JStr a"

fun answer_of_json :: "json \<Rightarrow> Option' option option" where
  "answer_of_json JNull = Some None"
| "answer_of_json (JStr a) = Some (Some a)"
| "answer_of_json _ = None"

definition json_of_MCQ :: "MCQ \<Rightarrow> json" where
  "json_of_MCQ q =
     JObj ([''question'' \<mapsto> JStr (question q),
            ''options'' \<mapsto> JArr (map JStr (options q)),
            ''correctAnswer'' \<mapsto> JStr (correctAnswer q)]
           ++ opt_field ''explanation'' (explanation q))"

definition MCQ_of_json :: "json \<Rightarrow> MCQ option" where
  "MCQ_of_json j =
     (case j of
        JObj m \<Rightarrow>
          (case (m ''question'', m ''options'', m ''correctAnswer'') of
             (Some (JStr q), Some (JArr os), Some (JStr c)) \<Rightarrow>
               (case (those (map str_of_json os), opt_str_of_json (m ''explanation'')) of
                  (Some opts, Some e) \<Rightarrow>
                    Some \<lparr>question = q, options = opts, correctAnswer = c, explanation = e\<rparr>
                | _ \<Rightarrow> None)
           | _ \<Rightarrow> None)
      | _ \<Rightarrow> None)"

definition json_of_Quiz :: "Quiz \<Rightarrow> json" where
  "json_of_Quiz q =
     JObj [''id'' \<mapsto> JStr (id' q),
           ''title'' \<mapsto> JStr (title q),
           ''questions'' \<mapsto> JArr (map json_of_MCQ (questions q)),
           ''duration'' \<mapsto> JNum (duration q)]"

definition Quiz_of_json :: "json \<Rightarrow> Quiz option" where
  "Quiz_of_json j =
     (case j of
        JObj m \<Rightarrow>
          (case (m ''id'', m ''title'', m ''questions'', m ''duration'') of
             (Some (JStr i), Some (JStr t), Some (JArr qs), Some (JNum d)) \<Rightarrow>
               (case those (map MCQ_of_json qs) of
                  Some mcqs \<Rightarrow> Some \<lparr>id' = i, title = t, questions = mcqs, duration = d\<rparr>
                | None \<Rightarrow> None)
           | _ \<Rightarrow> None)
      | _ \<Rightarrow> None)"

definition json_of_StudentResult :: "StudentResult \<Rightarrow> json" where
  "json_of_StudentResult r =
     JObj ([''quizId'' \<mapsto> JStr (quizId r),
            ''score'' \<mapsto> JNum (score r),
            ''total'' \<mapsto> JNum (total r),
            ''answers'' \<mapsto> JArr (map json_of_answer (answers r))]
           ++ opt_field ''studentName'' (studentName r)
           ++ opt_field ''studentRoll'' (studentRoll r)
           ++ opt_field ''studentEmail'' (studentEmail r))"

definition StudentResult_of_json :: "json \<Rightarrow> StudentResult option" where
  "StudentResult_of_json j =
     (case j of
        JObj m \<Rightarrow>
          (case (m ''quizId'', m ''score'', m ''total'', m ''answers'') of
             (Some (JStr q), Some (JNum sc), Some (JNum t), Some (JArr xs)) \<Rightarrow>
               (case (those (map answer_of_json xs),
                      opt_str_of_json (m ''studentName''),
                      opt_str_of_json (m ''studentRoll''),
                      opt_str_of_json (m ''studentEmail'')) of
                  (Some a, Some n, Some r, Some e) \<Rightarrow>
                    Some \<lparr>quizId = q, studentName = n, studentRoll = r, studentEmail = e,
                          score = sc, total = t, answers = a\<rparr>
                | _ \<Rightarrow> None)
           | _ \<Rightarrow> None)
      | _ \<Rightarrow> None)"

definition json_of_professors :: "(string \<rightharpoonup> string) \<Rightarrow> json" where
  "json_of_professors p = JObj (\<lambda>k. map_option JStr (p k))"

definition professors_of_json :: "(string \<rightharpoonup> json) \<Rightarrow> (string \<rightharpoonup> string)" where
  "professors_of_json m = (\<lambda>k. Option.bind (m k) str_of_json)"

definition json_of_quizzes :: "(string \<rightharpoonup> Quiz) \<Rightarrow> json" where
  "json_of_quizzes q = JObj (\<lambda>k. map_option json_of_Quiz (q k))"

definition quizzes_of_json :: "(string \<rightharpoonup> json) \<Rightarrow> (string \<rightharpoonup> Quiz)" where
  "quizzes_of_json m = (\<lambda>k. Option.bind (m k) Quiz_of_json)"

definition json_of_results :: "StudentResult list \<Rightarrow> json" where
  "json_of_results rs = JArr (map json_of_StudentResult rs)"

definition results_of_json :: "json list \<Rightarrow> StudentResult list option" where
  "results_of_json xs = those (map StudentResult_of_json xs)"

section \<open>The application state\<close>

text \<open>
  The fields of the class \<open>QuizApp\<close>, the browser's \<open>localStorage\<close>, and the parts of
  the page that the session writes and later reads or shows: which view is visible,
  whether the anti-cheating listeners are installed, whether the confirmation dialog
  is hidden, the rendered question (the radio inputs the browser builds from the
  markup, each with the value it reports) or review list (the class tokens the code
  writes for each list item), and the rendered result. The elements the code looks
  up by id are taken to exist (the page itself is not among the sources); headings,
  the timer text, which input is shown checked and the visibility of the navigation
  buttons are not modelled. \<open>MarkupHtml\<close> stands for a question whose texts hold
  characters that the browser reads as markup: what it builds from them is not
  modelled.

  \<open>quizTimerInterval = Some endTime\<close> stands for a live interval whose callback has
  captured \<open>endTime\<close>; \<open>None\<close> for no interval.
\<close>

datatype error = TypeError | IllTyped

datatype Termination = Manual | Timeout | IntegrityViolation

record RadioInput =
  input_value :: string

datatype QuizContainer =
    NoQuestion
  | QuestionHtml "RadioInput list"
  | ReviewHtml "string list list"
  | MarkupHtml

record ResultsHtml =
  shownResult :: StudentResult
  notice :: Termination

record QuizApp =
  currentView :: string
  professors :: "string \<rightharpoonup> string"
  quizzes :: "string \<rightharpoonup> Quiz"
  results :: "StudentResult list"
  activeQuiz :: "Quiz option"
  studentAnswers :: "Option' option list"
  currentQuestionIndex :: int
  quizTimerInterval :: "int option"
  reviewingResult :: "StudentResult option"
  localStorage :: "string \<rightharpoonup> json"
  antiCheatingInstalled :: bool
  confirmationModalHidden :: bool
  quizContainer :: QuizContainer
  resultsSection :: "ResultsHtml option"

subsection \<open>Persistence: \<open>saveDataToStorage\<close> and \<open>loadDataFromStorage\<close>\<close>

definition saveDataToStorage :: "QuizApp \<Rightarrow> QuizApp" where
  "saveDataToStorage s =
     s\<lparr>localStorage := (localStorage s)
          (''quizAppProfessors'' \<mapsto> json_of_professors (professors s),
           ''quizAppQuizzes'' \<mapsto> json_of_quizzes (quizzes s),
           ''quizAppResults'' \<mapsto> json_of_results (results s))\<rparr>"

text \<open>
  The default professor is seeded when nothing is stored or the stored object has no
  key. A stored value of another shape than the one \<open>saveDataToStorage\<close> writes
  cannot be assigned in the typed model: \<open>Inl IllTyped\<close>.
\<close>

definition seedProfessor :: "QuizApp \<Rightarrow> QuizApp" where
  "seedProfessor s = saveDataToStorage (s\<lparr>professors := [''professor@test.com'' \<mapsto> ''password'']\<rparr>)"

definition loadProfessors :: "QuizApp \<Rightarrow> error + QuizApp" where
  "loadProfessors s =
     (case localStorage s ''quizAppProfessors'' of
        None \<Rightarrow> Inr (seedProfessor s)
      | Some (JObj m) \<Rightarrow>
          if m \<noteq> Map.empty then Inr (s\<lparr>professors := professors_of_json m\<rparr>)
          else Inr (seedProfessor s)
      | Some _ \<Rightarrow> Inl IllTyped)"

definition loadQuizzes :: "QuizApp \<Rightarrow> error + QuizApp" where
  "loadQuizzes s =
     (case localStorage s ''quizAppQuizzes'' of
        None \<Rightarrow> Inr s
      | Some (JObj m) \<Rightarrow> Inr (s\<lparr>quizzes := quizzes_of_json m\<rparr>)
      | Some _ \<Rightarrow> Inl IllTyped)"

definition loadResults :: "QuizApp \<Rightarrow> error + QuizApp" where
  "loadResults s =
     (case localStorage s ''quizAppResults'' of
        None \<Rightarrow> Inr s
      | Some (JArr xs) \<Rightarrow>
          (case results_of_json xs of
             Some rs \<Rightarrow> Inr (s\<lparr>results := rs\<rparr>)
           | None \<Rightarrow> Inl IllTyped)
      | Some _ \<Rightarrow> Inl IllTyped)"

definition loadDataFromStorage :: "QuizApp \<Rightarrow> error + QuizApp" where
  "loadDataFromStorage s =
     (case loadProfessors s of
        Inl e \<Rightarrow> Inl e
      | Inr s1 \<Rightarrow>
          (case loadQuizzes s1 of
             Inl e \<Rightarrow> Inl e
           | Inr s2 \<Rightarrow> loadResults s2))"

subsection \<open>Views, timer handle and anti-cheating listeners\<close>

definition showView :: "string \<Rightarrow> QuizApp \<Rightarrow> QuizApp" where
  "showView viewId s = s\<lparr>currentView := viewId\<rparr>"

definition showConfirmationModal :: "QuizApp \<Rightarrow> QuizApp" where
  "showConfirmationModal s = s\<lparr>confirmationModalHidden := False\<rparr>"

definition closeConfirmationModal :: "QuizApp \<Rightarrow> QuizApp" where
  "closeConfirmationModal s = s\<lparr>confirmationModalHidden := True\<rparr>"

definition stopTimer :: "QuizApp \<Rightarrow> QuizApp" where
  "stopTimer s = (if quizTimerInterval s \<noteq> None then s\<lparr>quizTimerInterval := None\<rparr> else s)"

definition installAntiCheating :: "QuizApp \<Rightarrow> QuizApp" where
  "installAntiCheating s = s\<lparr>antiCheatingInstalled := True\<rparr>"

definition uninstallAntiCheating :: "QuizApp \<Rightarrow> QuizApp" where
  "uninstallAntiCheating s = s\<lparr>antiCheatingInstalled := False\<rparr>"

subsection \<open>Submission: \<open>submitQuiz\<close> and \<open>renderStudentResult\<close>\<close>

text \<open>
  \<open>renderStudentResult\<close> prints the integrity notice when \<open>cheated\<close>, otherwise the
  time-up notice when \<open>timedOut\<close>, otherwise none; a \<open>StudentResult\<close> has no field for
  the reason, so the notice is where the reason of the termination is recorded.
\<close>

definition renderStudentResult :: "StudentResult \<Rightarrow> bool \<Rightarrow> bool \<Rightarrow> QuizApp \<Rightarrow> QuizApp" where
  "renderStudentResult result cheated timedOut s =
     showView ''results-section''
       (s\<lparr>resultsSection :=
            Some \<lparr>shownResult = result,
                  notice = (if cheated then IntegrityViolation
                            else if timedOut then Timeout else Manual)\<rparr>\<rparr>)"

text \<open>
  The scoring loop \<open>questions.forEach((q, i) => ...)\<close>, with the running index and
  the running score (\<open>given\<close> is \<open>this.studentAnswers\<close>).
\<close>

fun score_forEach :: "MCQ list \<Rightarrow> nat \<Rightarrow> Option' option list \<Rightarrow> int \<Rightarrow> int" where
  "score_forEach [] i given score' = score'"
| "score_forEach (q # qs) i given score' =
     score_forEach qs (Suc i) given
       (if js_get given (int i) = Some (Some (correctAnswer q)) then score' + 1
        else score')"

text \<open>
  \<open>studentInfo.name\<close> and its siblings: the property of the parsed student info, or
  \<open>undefined\<close> when it is not there (\<open>'{}'\<close> is parsed when nothing is stored).
  \<open>handleStudentLogin\<close> stores an object of three strings; a stored value of
  another shape is read as having no such property.
\<close>

definition studentInfo_field :: "json \<Rightarrow> string \<Rightarrow> string option" where
  "studentInfo_field j k =
     (case j of
        JObj m \<Rightarrow> (case m k of Some (JStr v) \<Rightarrow> Some v | _ \<Rightarrow> None)
      | _ \<Rightarrow> None)"

definition submitQuiz :: "bool \<Rightarrow> bool \<Rightarrow> QuizApp \<Rightarrow> QuizApp" where
  "submitQuiz cheated timedOut s =
     (case activeQuiz s of
        None \<Rightarrow> s
      | Some quiz \<Rightarrow>
          let s1 = uninstallAntiCheating (stopTimer s);
              score' = score_forEach (questions quiz) 0 (studentAnswers s1) 0;
              studentInfo = (case localStorage s1 ''currentStudentInfo'' of
                               None \<Rightarrow> JObj Map.empty
                             | Some j \<Rightarrow> j);
              result = \<lparr>quizId = id' quiz,
                        studentName = studentInfo_field studentInfo ''name'',
                        studentRoll = studentInfo_field studentInfo ''roll'',
                        studentEmail = studentInfo_field studentInfo ''email'',
                        score = (if cheated then 0 else score'),
                        total = int (length (questions quiz)),
                        answers = studentAnswers s1\<rparr>;
              s2 = saveDataToStorage (s1\<lparr>results := results s1 @ [result]\<rparr>);
              s3 = renderStudentResult result cheated timedOut s2
          in s3\<lparr>activeQuiz := None,
                studentAnswers := [],
                currentQuestionIndex := 0,
                localStorage := (localStorage s3)(''currentStudentInfo'' := None)\<rparr>)"

text \<open>The click on the confirmation button: close the dialog, then submit.\<close>

definition confirmSubmission :: "QuizApp \<Rightarrow> QuizApp" where
  "confirmSubmission s = submitQuiz False False (closeConfirmationModal s)"

subsection \<open>Timer\<close>

text \<open>
  The timer computes with JavaScript numbers, which are IEEE doubles. Every integer
  of magnitude below \<open>2^53\<close> is a double; a larger exact result is rounded to the
  nearest double, to the even one of two nearest. \<open>ulp m\<close> is the distance between
  neighbouring doubles at the magnitude \<open>m\<close>, and \<open>js_num x\<close> is the double that
  stands for the exact integer result \<open>x\<close> (for magnitudes below \<open>2^1024\<close>; beyond
  that the double is \<open>Infinity\<close>, for which the model has no value).
\<close>

function ulp :: "nat \<Rightarrow> nat" where
  "ulp m = (if m < 2 ^ 53 then 1 else 2 * ulp (m div 2))"
  by pat_completeness auto
termination
  by (relation "measure id") auto

declare ulp.simps [simp del]

definition js_num :: "int \<Rightarrow> int" where
  "js_num x =
     (let m = nat \<bar>x\<bar>;
          u = ulp m;
          q = m div u;
          r = m mod u;
          q' = (if 2 * r > u \<or> (2 * r = u \<and> odd q) then q + 1 else q)
      in sgn x * int (q' * u))"

text \<open>
  \<open>Date.now()\<close> is read when \<open>startTimer\<close> computes \<open>endTime\<close> (\<open>now0\<close>) and again at
  each update (\<open>now\<close>); the first update runs inside \<open>startTimer\<close>, before the interval
  is created. \<open>tick\<close> is one firing of the interval: it runs the callback of a live
  interval and does nothing when there is none.
\<close>

definition updateTimer :: "int \<Rightarrow> int \<Rightarrow> QuizApp \<Rightarrow> QuizApp" where
  "updateTimer endTime now s =
     (let remainingMs = js_num (endTime - now)
      in if remainingMs \<le> 0 then submitQuiz False True s else s)"

definition startTimer :: "int \<Rightarrow> int \<Rightarrow> int \<Rightarrow> QuizApp \<Rightarrow> QuizApp" where
  "startTimer durationInMinutes now0 now1 s =
     (let s1 = stopTimer s;
          endTime = js_num (now0 + js_num (js_num (durationInMinutes * 60) * 1000));
          s2 = updateTimer endTime now1 s1
      in s2\<lparr>quizTimerInterval := Some endTime\<rparr>)"

definition tick :: "int \<Rightarrow> QuizApp \<Rightarrow> QuizApp" where
  "tick now s =
     (case quizTimerInterval s of
        None \<Rightarrow> s
      | Some endTime \<Rightarrow> updateTimer endTime now s)"

subsection \<open>Integrity monitor\<close>

text \<open>
  \<open>visibilityChangeHandler\<close> with the page's \<open>visibilityState\<close> at the event
  (\<open>hidden\<close> or not); \<open>visibilitychange\<close> is the event itself, which reaches the
  handler only while the listener is installed.
\<close>

definition visibilityChangeHandler :: "bool \<Rightarrow> QuizApp \<Rightarrow> QuizApp" where
  "visibilityChangeHandler hidden s = (if hidden then submitQuiz True False s else s)"

definition visibilitychange :: "bool \<Rightarrow> QuizApp \<Rightarrow> QuizApp" where
  "visibilitychange hidden s =
     (if antiCheatingInstalled s then visibilityChangeHandler hidden s else s)"

subsection \<open>Taking a quiz: \<open>startQuiz\<close>, \<open>renderQuestion\<close>, \<open>navigateQuestion\<close>\<close>

text \<open>
  \<open>renderQuestion\<close> reads \<open>questions[currentQuestionIndex]\<close> and then its \<open>options\<close>:
  outside the array the question is \<open>undefined\<close> and the read throws a
  \<open>TypeError\<close>. It writes the question and the options, unescaped, into markup that
  it assigns to \<open>innerHTML\<close>: each option once between double quotes as the \<open>value\<close>
  attribute of a radio input, and once as the content of its label.

  The browser parses that markup. A text without \<open><\<close>, \<open>&\<close>, carriage return and NUL
  (\<open>html_literal\<close>) opens no tag and holds no character reference, so the page has
  one radio input per option, in the order of the options; the value of an input
  is what stands between the double quotes of its attribute, that is the option's
  text up to its first double quote (\<open>value_attribute\<close>); what follows that quote is
  read as further attributes of the same input, after \<open>type\<close>, \<open>name\<close> and \<open>value\<close>
  have been set. With any other text the page is \<open>MarkupHtml\<close>.
\<close>

definition html_literal :: "string \<Rightarrow> bool" where
  "html_literal text =
     list_all (\<lambda>c. c \<notin> set [CHR ''<'', CHR ''&'', CHR 0x0D, CHR 0x00]) text"

definition value_attribute :: "string \<Rightarrow> string" where
  "value_attribute text = takeWhile (\<lambda>c. c \<noteq> CHR 0x22) text"

definition renderQuestion :: "QuizApp \<Rightarrow> error + QuizApp" where
  "renderQuestion s =
     (case activeQuiz s of
        None \<Rightarrow> Inr s
      | Some quiz \<Rightarrow>
          (case js_get (questions quiz) (currentQuestionIndex s) of
             None \<Rightarrow> Inl TypeError
           | Some q \<Rightarrow>
               Inr (s\<lparr>quizContainer :=
                         (if html_literal (question q) \<and> list_all html_literal (options q)
                          then QuestionHtml
                                 (map (\<lambda>option. \<lparr>input_value = value_attribute option\<rparr>)
                                      (options q))
                          else MarkupHtml)\<rparr>)))"

text \<open>
  The \<open>change\<close> listener that \<open>renderQuestion\<close> puts on every radio input, fired on
  the input at position \<open>k\<close> of the rendered question:
  \<open>this.studentAnswers[this.currentQuestionIndex] = e.target.value\<close>. A page without
  a modelled input at position \<open>k\<close> gives the model no event to fire.
\<close>

definition optionChange :: "nat \<Rightarrow> QuizApp \<Rightarrow> QuizApp" where
  "optionChange k s =
     (case quizContainer s of
        QuestionHtml inputs \<Rightarrow>
          if k < length inputs
          then s\<lparr>studentAnswers :=
                    js_set (studentAnswers s) (currentQuestionIndex s)
                      (Some (input_value (inputs ! k)))\<rparr>
          else s
      | _ \<Rightarrow> s)"

definition startQuiz :: "Quiz \<Rightarrow> int \<Rightarrow> int \<Rightarrow> QuizApp \<Rightarrow> error + QuizApp" where
  "startQuiz quiz now0 now1 s =
     (let s1 = s\<lparr>activeQuiz := Some quiz,
                  studentAnswers := replicate (length (questions quiz)) None,
                  currentQuestionIndex := 0\<rparr>;
          s2 = installAntiCheating s1;
          s3 = startTimer (duration quiz) now0 now1 s2
      in case renderQuestion s3 of
           Inl e \<Rightarrow> Inl e
         | Inr s4 \<Rightarrow> Inr (showView ''student-quiz-section'' s4))"

subsection \<open>Review of a result\<close>

text \<open>
  The class attribute of one list item of the review, as its tokens in the order the
  code appends them. \<open>ReviewHtml\<close> holds the classes the code writes, one list item
  per option; the code computes them from the texts, not from the page.
\<close>

definition li_class :: "Option' \<Rightarrow> Option' \<Rightarrow> Option' option option \<Rightarrow> string list" where
  "li_class option correct studentAnswer =
     [''option-item'']
     @ (if option = correct then [''correct''] else [])
     @ (if studentAnswer = Some (Some option)
        then [''selected''] @ (if option \<noteq> correct then [''incorrect''] else [])
        else [])"

definition renderReviewQuestion :: "QuizApp \<Rightarrow> error + QuizApp" where
  "renderReviewQuestion s =
     (case (activeQuiz s, reviewingResult s) of
        (Some quiz, Some reviewing) \<Rightarrow>
          (case js_get (questions quiz) (currentQuestionIndex s) of
             None \<Rightarrow> Inl TypeError
           | Some q \<Rightarrow>
               let studentAnswer = js_get (answers reviewing) (currentQuestionIndex s)
               in Inr (s\<lparr>quizContainer :=
                            ReviewHtml
                              (map (\<lambda>option. li_class option (correctAnswer q) studentAnswer)
                                   (options q))\<rparr>))
      | _ \<Rightarrow> Inr s)"

definition navigateQuestion :: "int \<Rightarrow> QuizApp \<Rightarrow> error + QuizApp" where
  "navigateQuestion direction s =
     (let newIndex = currentQuestionIndex s + direction
      in case activeQuiz s of
           None \<Rightarrow> Inr s
         | Some quiz \<Rightarrow>
             if newIndex \<ge> 0 \<and> newIndex < int (length (questions quiz))
             then let s1 = s\<lparr>currentQuestionIndex := newIndex\<rparr>
                  in if reviewingResult s1 \<noteq> None then renderReviewQuestion s1
                     else renderQuestion s1
             else Inr s)"

definition startReviewMode :: "StudentResult \<Rightarrow> QuizApp \<Rightarrow> error + QuizApp" where
  "startReviewMode result s =
     (case quizzes s (quizId result) of
        None \<Rightarrow> Inr s
      | Some quiz \<Rightarrow>
          (case renderReviewQuestion
                  (s\<lparr>activeQuiz := Some quiz,
                     reviewingResult := Some result,
                     currentQuestionIndex := 0\<rparr>) of
             Inl e \<Rightarrow> Inl e
           | Inr s1 \<Rightarrow> Inr (showView ''student-quiz-section'' s1)))"

text \<open>
  The click on the \<open>Review Answers\<close> button of the rendered result: the listener
  that \<open>renderStudentResult\<close> registers calls \<open>startReviewMode\<close> with the result it
  has rendered.
\<close>

definition reviewAnswersClick :: "QuizApp \<Rightarrow> error + QuizApp" where
  "reviewAnswersClick s =
     (case resultsSection s of
        None \<Rightarrow> Inr s
      | Some shown \<Rightarrow> startReviewMode (shownResult shown) s)"

definition endReviewMode :: "QuizApp \<Rightarrow> QuizApp" where
  "endReviewMode s =
     (case reviewingResult s of
        None \<Rightarrow> s
      | Some result \<Rightarrow>
          renderStudentResult result False False
            (s\<lparr>activeQuiz := None, reviewingResult := None, currentQuestionIndex := 0\<rparr>))"

text \<open>
  A sequence of clicks on the navigation buttons, each with its direction; it stops at
  the first click that throws.
\<close>

fun navigateMany :: "int list \<Rightarrow> QuizApp \<Rightarrow> error + QuizApp" where
  "navigateMany [] s = Inr s"
| "navigateMany (d # ds) s =
     (case navigateQuestion d s of
        Inl e \<Rightarrow> Inl e
      | Inr s' \<Rightarrow> navigateMany ds s')"

subsection \<open>Creating a quiz: \<open>createAndSaveQuiz\<close>\<close>

text \<open>
  \<open>Math.random().toString(36)\<close> is an input of the model: the list \<open>draws\<close> holds the
  texts it returns, one per round of the \<open>do ... while\<close> loop (\<open>"0."\<close> followed by
  the base-36 digits of the number, or \<open>"0"\<close> for the number 0). The loop ends at
  the first draw whose code is not a key of \<open>quizzes\<close> (a stored quiz is an object,
  hence truthy); \<open>None\<close> says that every draw of the list collided, so the loop is
  still running. Closing the creation dialog and drawing the dashboard change the
  page only.
\<close>

definition substring :: "string \<Rightarrow> nat \<Rightarrow> nat \<Rightarrow> string" where
  "substring s start end' = drop (min start end') (take (max start end') s)"

definition toUpperCase_char :: "char \<Rightarrow> char" where
  "toUpperCase_char c =
     (case map_of (zip ''abcdefghijklmnopqrstuvwxyz'' ''ABCDEFGHIJKLMNOPQRSTUVWXYZ'') c of
        Some u \<Rightarrow> u
      | None \<Rightarrow> c)"

definition toUpperCase :: "string \<Rightarrow> string" where
  "toUpperCase s = map toUpperCase_char s"

fun newQuizId_loop :: "string list \<Rightarrow> (string \<rightharpoonup> Quiz) \<Rightarrow> string option" where
  "newQuizId_loop [] qs = None"
| "newQuizId_loop (r # draws) qs =
     (let newQuizId = toUpperCase (substring r 2 8)
      in if qs newQuizId \<noteq> None then newQuizId_loop draws qs else Some newQuizId)"

definition createAndSaveQuiz ::
  "string \<Rightarrow> MCQ list \<Rightarrow> int \<Rightarrow> string list \<Rightarrow> QuizApp \<Rightarrow> QuizApp option" where
  "createAndSaveQuiz title' questions' duration' draws s =
     (case newQuizId_loop draws (quizzes s) of
        None \<Rightarrow> None
      | Some newQuizId \<Rightarrow>
          Some (saveDataToStorage
                  (s\<lparr>quizzes := (quizzes s)
                       (newQuizId \<mapsto>
                          \<lparr>id' = newQuizId, title = title', questions = questions',
                           duration = duration'\<rparr>)\<rparr>)))"

section \<open>Example states\<close>

text \<open>
  The state of a freshly constructed application before anything is loaded (the
  field initialisers of the class, an empty \<open>localStorage\<close>, a page that shows
  nothing yet), and the quiz and session of the specification's scenario A: two
  questions with the correct answers \<open>Paris\<close> and \<open>42\<close>, answered \<open>Paris\<close> and \<open>41\<close>.
\<close>

definition newApp :: QuizApp where
  "newApp =
     \<lparr>currentView = ''login-section'',
      professors = Map.empty,
      quizzes = Map.empty,
      results = [],
      activeQuiz = None,
      studentAnswers = [],
      currentQuestionIndex = 0,
      quizTimerInterval = None,
      reviewingResult = None,
      localStorage = Map.empty,
      antiCheatingInstalled = False,
      confirmationModalHidden = True,
      quizContainer = NoQuestion,
      resultsSection = None\<rparr>"

definition scenarioA_quiz :: Quiz where
  "scenarioA_quiz =
     \<lparr>id' = ''ABC123'', title = ''Scenario A'',
      questions =
        [\<lparr>question = ''Capital of France?'', options = [''Paris'', ''Rome''],
          correctAnswer = ''Paris'', explanation = None\<rparr>,
         \<lparr>question = ''Six times seven?'', options = [''41'', ''42''],
          correctAnswer = ''42'', explanation = None\<rparr>],
      duration = 1\<rparr>"

definition scenarioA_session :: QuizApp where
  "scenarioA_session =
     newApp\<lparr>activeQuiz := Some scenarioA_quiz,
            studentAnswers := [Some ''Paris'', Some ''41'']\<rparr>"

text \<open>
  The session that \<open>startQuiz\<close> opens on the scenario's quiz at time 0 (see
  \<open>startQuiz_scenarioA\<close> below), and the same session with both questions answered
  correctly.
\<close>

definition scenarioA_started :: QuizApp where
  "scenarioA_started =
     newApp\<lparr>currentView := ''student-quiz-section'',
            activeQuiz := Some scenarioA_quiz,
            studentAnswers := [None, None],
            quizTimerInterval := Some 60000,
            antiCheatingInstalled := True,
            quizContainer :=
              QuestionHtml [\<lparr>input_value = ''Paris''\<rparr>, \<lparr>input_value = ''Rome''\<rparr>]\<rparr>"

definition allCorrect_session :: QuizApp where
  "allCorrect_session = scenarioA_started\<lparr>studentAnswers := [Some ''Paris'', Some ''42'']\<rparr>"


text \<open>
  A quiz without questions, and a one-question quiz whose options repeat the text of
  the correct answer, with a session on it and a result that reviews it.
\<close>

definition noQuestions_quiz :: Quiz where
  "noQuestions_quiz = \<lparr>id' = ''EMPTY0'', title = ''No questions'', questions = [], duration = 1\<rparr>"

definition duplicate_mcq :: MCQ where
  "duplicate_mcq =
     \<lparr>question = ''Pick A'', options = [''A'', ''A'', ''B''],
      correctAnswer = ''A'', explanation = None\<rparr>"

definition duplicate_quiz :: Quiz where
  "duplicate_quiz =
     \<lparr>id' = ''DUP001'', title = ''Duplicate options'',
      questions = [duplicate_mcq], duration = 1\<rparr>"

definition duplicate_result :: StudentResult where
  "duplicate_result =
     \<lparr>quizId = ''DUP001'', studentName = None, studentRoll = None, studentEmail = None,
      score = 1, total = 1, answers = [Some ''A'']\<rparr>"

definition duplicate_session :: QuizApp where
  "duplicate_session =
     newApp\<lparr>activeQuiz := Some duplicate_quiz, studentAnswers := [None]\<rparr>"


text \<open>
  A one-question quiz whose options end in a double quote (sizes in inches), with a
  session on it; and the session with both answers correct whose quiz is stored in
  \<open>quizzes\<close>, as it is for a quiz that a student has opened by its code.
\<close>

definition inch_mcq :: MCQ where
  "inch_mcq =
     \<lparr>question = ''Screen size?'',
      options = [''5'' @ [CHR 0x22], ''6'' @ [CHR 0x22]],
      correctAnswer = ''5'' @ [CHR 0x22], explanation = None\<rparr>"

definition inch_quiz :: Quiz where
  "inch_quiz =
     \<lparr>id' = ''INCH01'', title = ''Inches'', questions = [inch_mcq], duration = 1\<rparr>"

definition inch_session :: QuizApp where
  "inch_session = newApp\<lparr>activeQuiz := Some inch_quiz, studentAnswers := [None]\<rparr>"

definition stored_session :: QuizApp where
  "stored_session = allCorrect_session\<lparr>quizzes := [''ABC123'' \<mapsto> scenarioA_quiz]\<rparr>"

text \<open>
  A state worth saving: one professor, the quiz of scenario A, and one result with
  an unanswered question.
\<close>

definition stored_example :: QuizApp where
  "stored_example =
     newApp\<lparr>professors := [''professor@test.com'' \<mapsto> ''password''],
            quizzes := [''ABC123'' \<mapsto> scenarioA_quiz],
            results := [\<lparr>quizId = ''ABC123'', studentName = Some ''Ada'',
                         studentRoll = Some ''7'', studentEmail = Some ''ada@test.com'',
                         score = 1, total = 2, answers = [Some ''Paris'', None]\<rparr>]\<rparr>"


section \<open>Numbers\<close>

text \<open>
  Below \<open>2^53\<close> the double is the integer itself; the sign of a difference
  survives the rounding; and above \<open>2^53\<close> the rounding shows: the exact deadline
  9007199254800001 is the double 9007199254800000.
\<close>

lemma ulp_small: "m < 2 ^ 53 \<Longrightarrow> ulp m = 1"
  by (subst ulp.simps) simp

lemma ulp_large: "\<not> m < 2 ^ 53 \<Longrightarrow> ulp m = 2 * ulp (m div 2)"
  by (subst ulp.simps) simp

lemma ulp_le: "ulp m \<le> max 1 m"
proof (induction m rule: ulp.induct)
  case (1 m)
  show ?case
  proof (cases "m < 2 ^ 53")
    case True
    then show ?thesis by (simp add: ulp_small)
  next
    case False
    then have "ulp (m div 2) \<le> max 1 (m div 2)" by (rule "1.IH")
    moreover have "2 \<le> m" using False by simp
    ultimately have "2 * ulp (m div 2) \<le> m" by (simp add: max_def split: if_splits) 
    then show ?thesis by (simp add: ulp_large [OF False])
  qed
qed

lemma ulp_pos: "0 < ulp m"
proof (induction m rule: ulp.induct)
  case (1 m)
  show ?case
  proof (cases "m < 2 ^ 53")
    case True
    then show ?thesis by (simp add: ulp_small)
  next
    case False
    then have "0 < ulp (m div 2)" by (rule "1.IH")
    then show ?thesis by (simp add: ulp_large [OF False])
  qed
qed

lemma js_num_exact: "\<bar>x\<bar> < 2 ^ 53 \<Longrightarrow> js_num x = x"
proof -
  assume small: "\<bar>x\<bar> < 2 ^ 53"
  then have "nat \<bar>x\<bar> < 2 ^ 53"
    by (simp add: nat_less_iff)
  then have "ulp (nat \<bar>x\<bar>) = 1" by (rule ulp_small)
  then show ?thesis
    by (simp add: js_num_def Let_def mult_sgn_abs)
qed

lemma js_num_nonpos_iff: "js_num x \<le> 0 \<longleftrightarrow> x \<le> 0"
proof (cases "x \<le> 0")
  case True
  then have "sgn x \<le> 0" by (simp add: sgn_if)
  then have "js_num x \<le> 0"
    unfolding js_num_def Let_def by (rule mult_nonpos_nonneg) simp
  with True show ?thesis by simp
next
  case False
  then have pos: "0 < x" by simp
  define m where "m = nat \<bar>x\<bar>"
  define u where "u = ulp m"
  define q where "q = m div u"
  define q' where "q' = (if 2 * (m mod u) > u \<or> (2 * (m mod u) = u \<and> odd q) then q + 1 else q)"
  have m: "1 \<le> m" using pos by (simp add: m_def)
  have u: "0 < u" by (simp add: u_def ulp_pos)
  have "u \<le> m" using ulp_le [of m] m by (simp add: u_def)
  then have "1 \<le> q"
    using u by (simp add: q_def div_greater_zero_iff Suc_le_eq)
  then have "1 \<le> q'" by (simp add: q'_def)
  then have "0 < q' * u" using u by simp
  moreover have "js_num x = int (q' * u)"
    using pos unfolding js_num_def Let_def q'_def q_def u_def m_def by simp
  ultimately have "0 < js_num x" by simp
  with False show ?thesis by simp
qed

lemma js_num_rounds: "js_num 9007199254800001 = 9007199254800000"
proof -
  have "ulp 9007199254800001 = 2 * ulp (9007199254800001 div 2)"
    by (rule ulp_large) simp
  also have "ulp (9007199254800001 div 2) = 1"
    by (rule ulp_small) simp
  finally have u: "ulp 9007199254800001 = 2" by simp
  show ?thesis
    by (simp add: js_num_def Let_def u)
qed

section \<open>Scoring\<close>

lemma score_forEach_filter:
  "score_forEach qs i given acc =
     acc + int (length (filter (\<lambda>k. js_get given (int (i + k)) = Some (Some (correctAnswer (qs ! k))))
                          [0..<length qs]))"
proof (induction qs arbitrary: i acc)
  case Nil
  then show ?case by simp
next
  case (Cons q qs)
  have upt: "[0..<length (q # qs)] = 0 # map Suc [0..<length qs]"
    by (simp add: upt_conv_Cons map_Suc_upt del: upt_Suc)
  show ?case
    unfolding upt by (simp add: Cons.IH filter_map o_def ac_simps)
qed

lemma score_forEach_card:
  "score_forEach qs i given acc =
     acc + int (card {k. k < length qs \<and>
                         js_get given (int (i + k)) = Some (Some (correctAnswer (qs ! k)))})"
proof -
  have "length (filter (\<lambda>k. js_get given (int (i + k)) = Some (Some (correctAnswer (qs ! k))))
                          [0..<length qs])
        = card {k. k < length qs \<and>
                         js_get given (int (i + k)) = Some (Some (correctAnswer (qs ! k)))}"
    by (simp add: length_filter_conv_card cong: conj_cong)
  then show ?thesis by (simp add: score_forEach_filter)
qed

lemma score_forEach_bounds:
  "acc \<le> score_forEach qs i given acc \<and> score_forEach qs i given acc \<le> acc + int (length qs)"
proof -
  have "length (filter (\<lambda>k. js_get given (int (i + k)) = Some (Some (correctAnswer (qs ! k))))
                          [0..<length qs]) \<le> length [0..<length qs]"
    by (rule length_filter_le)
  then show ?thesis by (simp add: score_forEach_filter)
qed

section \<open>Submission\<close>

lemmas submit_defs =
  submitQuiz_def Let_def stopTimer_def uninstallAntiCheating_def saveDataToStorage_def
  renderStudentResult_def showView_def

lemma submitQuiz_inactive: "activeQuiz s = None \<Longrightarrow> submitQuiz cheated timedOut s = s"
  by (simp add: submitQuiz_def)

lemma submitQuiz_deactivates: "activeQuiz (submitQuiz cheated timedOut s) = None"
  by (cases "activeQuiz s") (simp_all add: submit_defs)

lemma submitQuiz_results:
  "activeQuiz s = Some quiz \<Longrightarrow>
   results (submitQuiz cheated timedOut s) =
     results s @
       [\<lparr>quizId = id' quiz,
         studentName = studentInfo_field
            (case localStorage s ''currentStudentInfo'' of None \<Rightarrow> JObj Map.empty | Some j \<Rightarrow> j) ''name'',
         studentRoll = studentInfo_field
            (case localStorage s ''currentStudentInfo'' of None \<Rightarrow> JObj Map.empty | Some j \<Rightarrow> j) ''roll'',
         studentEmail = studentInfo_field
            (case localStorage s ''currentStudentInfo'' of None \<Rightarrow> JObj Map.empty | Some j \<Rightarrow> j) ''email'',
         score = (if cheated then 0 else score_forEach (questions quiz) 0 (studentAnswers s) 0),
         total = int (length (questions quiz)),
         answers = studentAnswers s\<rparr>]"
  by (simp add: submit_defs)

lemma submitQuiz_resultsSection:
  "activeQuiz s = Some quiz \<Longrightarrow>
   resultsSection (submitQuiz cheated timedOut s) =
     Some \<lparr>shownResult = last (results (submitQuiz cheated timedOut s)),
           notice = (if cheated then IntegrityViolation else if timedOut then Timeout else Manual)\<rparr>"
  by (simp add: submit_defs)

lemma submitQuiz_disarms:
  "quizTimerInterval (submitQuiz cheated timedOut s) = (if activeQuiz s = None then quizTimerInterval s else None) \<and>
   antiCheatingInstalled (submitQuiz cheated timedOut s) = (if activeQuiz s = None then antiCheatingInstalled s else False)"
  by (cases "activeQuiz s") (simp_all add: submit_defs)

lemma submitQuiz_keeps:
  "confirmationModalHidden (submitQuiz cheated timedOut s) = confirmationModalHidden s \<and>
   quizzes (submitQuiz cheated timedOut s) = quizzes s \<and>
   professors (submitQuiz cheated timedOut s) = professors s"
  by (cases "activeQuiz s") (simp_all add: submit_defs)

lemma submitQuiz_clears_answers:
  "activeQuiz s = Some quiz \<Longrightarrow> studentAnswers (submitQuiz cheated timedOut s) = []"
  by (simp add: submit_defs)

lemma startReviewMode_found:
  assumes "quizzes s (quizId r) = Some quiz" and "questions quiz \<noteq> []"
  shows "startReviewMode r s =
           Inr (s\<lparr>activeQuiz := Some quiz, reviewingResult := Some r,
                  currentQuestionIndex := 0,
                  quizContainer :=
                    ReviewHtml
                      (map (\<lambda>option. li_class option (correctAnswer (hd (questions quiz)))
                                        (js_get (answers r) 0))
                           (options (hd (questions quiz)))),
                  currentView := ''student-quiz-section''\<rparr>)"
  using assms
  by (cases "questions quiz")
     (simp_all add: startReviewMode_def renderReviewQuestion_def js_get_def Let_def showView_def)

lemma startQuiz_scenarioA: "startQuiz scenarioA_quiz 0 0 newApp = Inr scenarioA_started"
  by (simp add: startQuiz_def Let_def installAntiCheating_def startTimer_def stopTimer_def
      updateTimer_def renderQuestion_def js_get_def showView_def scenarioA_started_def
      js_num_exact html_literal_def value_attribute_def
      scenarioA_quiz_def newApp_def numeral_2_eq_2)

text \<open>
  C1. A submission that is not an integrity violation appends one result whose score
  is the number of positions at which the recorded answer is exactly the question's
  correct answer; the score lies between 0 and the number of questions, which is the
  result's total. (Answers sequence as long as the quiz has questions.)
\<close>

theorem submitQuiz_score_counts_exact_matches:
  assumes active: "activeQuiz s = Some q"
    and len: "length (studentAnswers s) = length (questions q)"
  shows "\<exists>r. results (submitQuiz False timedOut s) = results s @ [r] \<and>
             score r = int (card {i. i < length (questions q) \<and>
                                     studentAnswers s ! i = Some (correctAnswer (questions q ! i))}) \<and>
             0 \<le> score r \<and> score r \<le> int (length (questions q)) \<and>
             total r = int (length (questions q))"
proof -
  let ?given = "studentAnswers s"
  have same: "{k. k < length (questions q) \<and>
                  js_get ?given (int (0 + k)) = Some (Some (correctAnswer (questions q ! k)))}
              = {i. i < length (questions q) \<and>
                    ?given ! i = Some (correctAnswer (questions q ! i))}"
    using len by (auto simp: js_get_def)
  have count: "score_forEach (questions q) 0 ?given 0 =
                 int (card {i. i < length (questions q) \<and>
                               ?given ! i = Some (correctAnswer (questions q ! i))})"
    using score_forEach_card [of "questions q" 0 ?given 0] unfolding same by simp
  have bounds: "0 \<le> score_forEach (questions q) 0 ?given 0 \<and>
                score_forEach (questions q) 0 ?given 0 \<le> int (length (questions q))"
    using score_forEach_bounds [of 0 "questions q" 0 ?given] by simp
  show ?thesis
    using count bounds by (simp add: submitQuiz_results [OF active])
qed

text \<open>
  Scenario A of the specification as an instance of C1: answers \<open>Paris\<close>, \<open>41\<close>
  against the correct answers \<open>Paris\<close>, \<open>42\<close> give the score 1 of total 2.
\<close>

theorem scenarioA_score_1_of_2:
  "activeQuiz scenarioA_session = Some scenarioA_quiz \<and>
   length (studentAnswers scenarioA_session) = length (questions scenarioA_quiz) \<and>
   (\<exists>r. results (submitQuiz False False scenarioA_session) = [r] \<and> score r = 1 \<and> total r = 2)"
proof -
  have active: "activeQuiz scenarioA_session = Some scenarioA_quiz"
    by (simp add: scenarioA_session_def)
  have given: "studentAnswers scenarioA_session = [Some ''Paris'', Some ''41'']"
    by (simp add: scenarioA_session_def)
  have two: "length (questions scenarioA_quiz) = 2"
    by (simp add: scenarioA_quiz_def)
  have len: "length (studentAnswers scenarioA_session) = length (questions scenarioA_quiz)"
    by (simp add: given two)
  have matches: "{i. i < length (questions scenarioA_quiz) \<and>
                    studentAnswers scenarioA_session ! i
                      = Some (correctAnswer (questions scenarioA_quiz ! i))} = {0}"
    by (auto simp: given scenarioA_quiz_def nth_Cons' less_Suc_eq)
  have none: "results scenarioA_session = []"
    by (simp add: scenarioA_session_def newApp_def)
  from submitQuiz_score_counts_exact_matches [OF active len, of False]
  show ?thesis
    unfolding matches none using active len by (auto simp: two)
qed

text \<open>
  C2. The integrity-violation path (\<open>visibilityChangeHandler\<close> on a hidden page calls
  \<open>submitQuiz(true, false)\<close>): the result that a submission with \<open>cheated\<close> appends
  and shows with the integrity notice has score 0, whatever the recorded answers are.
\<close>

theorem integrity_violation_scores_zero:
  assumes active: "activeQuiz s = Some q"
  shows "visibilityChangeHandler True s = submitQuiz True False s \<and>
         (\<exists>r. results (submitQuiz True timedOut s) = results s @ [r] \<and>
              resultsSection (submitQuiz True timedOut s)
                = Some \<lparr>shownResult = r, notice = IntegrityViolation\<rparr> \<and>
              score r = 0)"
  using submitQuiz_results [OF active, of True timedOut]
        submitQuiz_resultsSection [OF active, of True timedOut]
  by (simp add: visibilityChangeHandler_def)

text \<open>
  Instance of C2: both answers are correct (an honest submission would score 2), and
  the visibility event yields score 0.
\<close>

theorem all_correct_violation_scores_zero:
  "activeQuiz allCorrect_session = Some scenarioA_quiz \<and>
   score_forEach (questions scenarioA_quiz) 0 (studentAnswers allCorrect_session) 0 = 2 \<and>
   (\<exists>r. results (visibilitychange True allCorrect_session) = [r] \<and> score r = 0)"
proof -
  have active: "activeQuiz allCorrect_session = Some scenarioA_quiz"
    by (simp add: allCorrect_session_def scenarioA_started_def)
  have all: "score_forEach (questions scenarioA_quiz) 0 (studentAnswers allCorrect_session) 0 = 2"
    by (simp add: allCorrect_session_def scenarioA_quiz_def js_get_def)
  have event: "visibilitychange True allCorrect_session
                 = visibilityChangeHandler True allCorrect_session"
    by (simp add: visibilitychange_def allCorrect_session_def scenarioA_started_def)
  have none: "results allCorrect_session = []"
    by (simp add: allCorrect_session_def scenarioA_started_def newApp_def)
  from integrity_violation_scores_zero [OF active, of False]
  show ?thesis
    using active all by (auto simp: event none)
qed

text \<open>
  C5. The result of the integrity-violation path stores the recorded answers as they
  were, and it is the result of an honest submission of the same session with only
  the score replaced by 0.
\<close>

theorem violation_keeps_answers:
  assumes active: "activeQuiz s = Some q"
  shows "\<exists>r r'. results (submitQuiz True timedOut s) = results s @ [r] \<and>
                results (submitQuiz False timedOut s) = results s @ [r'] \<and>
                answers r = studentAnswers s \<and>
                r = r'\<lparr>score := 0\<rparr>"
  using submitQuiz_results [OF active, of True timedOut]
        submitQuiz_results [OF active, of False timedOut]
  by simp

text \<open>
  Scenario C of the specification as an instance of C5: the taker selects the first
  option of the first question, then the page is hidden.
\<close>

theorem scenarioC_answers_kept:
  "activeQuiz (optionChange 0 scenarioA_started) = Some scenarioA_quiz \<and>
   (\<exists>r. results (visibilitychange True (optionChange 0 scenarioA_started)) = [r] \<and>
        score r = 0 \<and> answers r = [Some ''Paris'', None])"
proof -
  let ?s = "optionChange 0 scenarioA_started"
  have sel: "?s = scenarioA_started\<lparr>studentAnswers := [Some ''Paris'', None]\<rparr>"
    by (simp add: optionChange_def scenarioA_started_def newApp_def js_set_def)
  have active: "activeQuiz ?s = Some scenarioA_quiz"
    unfolding sel by (simp add: scenarioA_started_def)
  have event: "visibilitychange True ?s = submitQuiz True False ?s"
    unfolding sel
    by (simp add: visibilitychange_def visibilityChangeHandler_def scenarioA_started_def)
  have given: "studentAnswers ?s = [Some ''Paris'', None]"
    unfolding sel by simp
  have none: "results ?s = []"
    unfolding sel by (simp add: scenarioA_started_def newApp_def)
  from violation_keeps_answers [OF active, of False]
  show ?thesis
    unfolding event given none using active by auto
qed


text \<open>
  What holds of C4: on the state that a submission returns, submitting again does
  nothing. The first submission of an active session appends exactly one result; a
  second call of \<open>submitQuiz\<close>, with any flags, changes nothing: no result is
  appended, nothing is recomputed, and the result on show is still the first one.
  The timer and the visibility event, the two forced submissions, have been disarmed
  and do nothing either. The confirmation button closes its dialog before it calls
  \<open>submitQuiz\<close>, so on that state it can only close the dialog, and pressed twice in
  a row it changes nothing the second time.
\<close>

lemma submit_is_idempotent:
  assumes active: "activeQuiz s = Some q"
  shows "(\<exists>r. results (submitQuiz c1 t1 s) = results s @ [r] \<and>
              results (submitQuiz c2 t2 (submitQuiz c1 t1 s)) = results s @ [r] \<and>
              shownResult (the (resultsSection (submitQuiz c2 t2 (submitQuiz c1 t1 s)))) = r) \<and>
         submitQuiz c2 t2 (submitQuiz c1 t1 s) = submitQuiz c1 t1 s \<and>
         tick now (submitQuiz c1 t1 s) = submitQuiz c1 t1 s \<and>
         visibilitychange hidden (submitQuiz c1 t1 s) = submitQuiz c1 t1 s \<and>
         confirmSubmission (submitQuiz c1 t1 s) = closeConfirmationModal (submitQuiz c1 t1 s) \<and>
         confirmSubmission (confirmSubmission s) = confirmSubmission s"
proof -
  have again: "submitQuiz c2 t2 (submitQuiz c1 t1 s) = submitQuiz c1 t1 s"
    by (rule submitQuiz_inactive) (rule submitQuiz_deactivates)
  have one: "\<exists>r. results (submitQuiz c1 t1 s) = results s @ [r] \<and>
                 results (submitQuiz c2 t2 (submitQuiz c1 t1 s)) = results s @ [r] \<and>
                 shownResult (the (resultsSection (submitQuiz c2 t2 (submitQuiz c1 t1 s)))) = r"
    unfolding again
    by (simp add: submitQuiz_results [OF active] submitQuiz_resultsSection [OF active])
  have timer: "tick now (submitQuiz c1 t1 s) = submitQuiz c1 t1 s"
    using active by (simp add: tick_def submitQuiz_disarms)
  have monitor: "visibilitychange hidden (submitQuiz c1 t1 s) = submitQuiz c1 t1 s"
    using active by (simp add: visibilitychange_def submitQuiz_disarms)
  have closed: "activeQuiz (closeConfirmationModal x) = activeQuiz x" for x
    by (simp add: closeConfirmationModal_def)
  have confirm: "confirmSubmission (submitQuiz c1 t1 s) = closeConfirmationModal (submitQuiz c1 t1 s)"
    unfolding confirmSubmission_def
    by (rule submitQuiz_inactive) (simp add: closed submitQuiz_deactivates)
  have hidden: "confirmationModalHidden (confirmSubmission s)"
    using active by (simp add: confirmSubmission_def closeConfirmationModal_def submit_defs)
  have "closeConfirmationModal (confirmSubmission s) = confirmSubmission s"
    using hidden by (simp add: closeConfirmationModal_def)
  moreover have "activeQuiz (confirmSubmission s) = None"
    by (simp add: confirmSubmission_def submitQuiz_deactivates)
  ultimately have twice: "confirmSubmission (confirmSubmission s) = confirmSubmission s"
    by (simp add: confirmSubmission_def [of "confirmSubmission s"] submitQuiz_inactive)
  show ?thesis
    using one again timer monitor confirm twice by simp
qed

text \<open>
  An instance, on the session with both answers correct: one result after one
  submission, and still one after a second.
\<close>

lemma submit_twice_one_result:
  "activeQuiz allCorrect_session = Some scenarioA_quiz \<and>
   length (results (submitQuiz False False allCorrect_session)) = 1 \<and>
   length (results (submitQuiz True False (submitQuiz False False allCorrect_session))) = 1 \<and>
   length (results (confirmSubmission (confirmSubmission allCorrect_session))) = 1"
proof -
  have active: "activeQuiz allCorrect_session = Some scenarioA_quiz"
    by (simp add: allCorrect_session_def scenarioA_started_def)
  have none: "results allCorrect_session = []"
    by (simp add: allCorrect_session_def scenarioA_started_def newApp_def)
  have one: "length (results (confirmSubmission allCorrect_session)) = 1"
    using active none
    by (simp add: confirmSubmission_def closeConfirmationModal_def submitQuiz_results)
  from submit_is_idempotent [OF active, of False False True False 0 True]
  show ?thesis
    using active one by (auto simp: none)
qed

text \<open>
  C4 on a session that is opened for review with the confirmation dialog still open.
  \<open>submitQuiz\<close> tells a terminated session by \<open>activeQuiz\<close> being \<open>null\<close>, and
  \<open>startReviewMode\<close> sets \<open>activeQuiz\<close> again; \<open>submitQuiz\<close> does not close the
  confirmation dialog. So: the taker has both answers correct and asks to submit
  (the dialog opens), the timer runs out (a forced submission, score 2 of 2, the
  dialog stays open), the taker opens the review and then confirms in the dialog.
  That second submission appends a second result, with score 0 and no answers, and
  puts it on show.
\<close>

theorem review_then_confirm_submits_again:
  "activeQuiz stored_session = Some scenarioA_quiz \<and>
   \<not> confirmationModalHidden (tick 60001 (showConfirmationModal stored_session)) \<and>
   activeQuiz (tick 60001 (showConfirmationModal stored_session)) = None \<and>
   map score (results (tick 60001 (showConfirmationModal stored_session))) = [2] \<and>
   (\<exists>s'. reviewAnswersClick (tick 60001 (showConfirmationModal stored_session)) = Inr s' \<and>
         map score (results (confirmSubmission s')) = [2, 0] \<and>
         map answers (results (confirmSubmission s'))
           = [[Some ''Paris'', Some ''42''], []] \<and>
         map_option (\<lambda>shown. score (shownResult shown)) (resultsSection (confirmSubmission s'))
           = Some 0)"
proof -
  let ?open = "showConfirmationModal stored_session"
  let ?r = "\<lparr>quizId = ''ABC123'', studentName = None, studentRoll = None, studentEmail = None,
            score = 2, total = 2, answers = [Some ''Paris'', Some ''42'']\<rparr>"
  have active0: "activeQuiz stored_session = Some scenarioA_quiz"
    by (simp add: stored_session_def allCorrect_session_def scenarioA_started_def)
  have active: "activeQuiz ?open = Some scenarioA_quiz"
    by (simp add: showConfirmationModal_def active0)
  have armed: "quizTimerInterval ?open = Some 60000"
    by (simp add: showConfirmationModal_def stored_session_def allCorrect_session_def
        scenarioA_started_def)
  have forced: "tick 60001 ?open = submitQuiz False True ?open"
    by (simp add: tick_def armed updateTimer_def js_num_exact)
  have res: "results (submitQuiz False True ?open) = [?r]"
    unfolding submitQuiz_results [OF active]
    by (simp add: showConfirmationModal_def stored_session_def allCorrect_session_def
        scenarioA_started_def newApp_def scenarioA_quiz_def js_get_def studentInfo_field_def)
  have shown: "resultsSection (submitQuiz False True ?open)
                 = Some \<lparr>shownResult = ?r, notice = Timeout\<rparr>"
    unfolding submitQuiz_resultsSection [OF active] res by simp
  have dialog: "\<not> confirmationModalHidden (submitQuiz False True ?open)"
    by (simp add: submitQuiz_keeps showConfirmationModal_def)
  have stored: "quizzes (submitQuiz False True ?open) ''ABC123'' = Some scenarioA_quiz"
    by (simp add: submitQuiz_keeps showConfirmationModal_def stored_session_def)
  have found: "quizzes (submitQuiz False True ?open) (quizId ?r) = Some scenarioA_quiz"
    using stored by simp
  have "questions scenarioA_quiz \<noteq> []"
    by (simp add: scenarioA_quiz_def)
  from startReviewMode_found [OF found this]
  obtain c where review: "reviewAnswersClick (submitQuiz False True ?open) =
      Inr ((submitQuiz False True ?open)
            \<lparr>activeQuiz := Some scenarioA_quiz, reviewingResult := Some ?r,
             currentQuestionIndex := 0, quizContainer := c,
             currentView := ''student-quiz-section''\<rparr>)"
    unfolding reviewAnswersClick_def shown by simp
  let ?s' = "(submitQuiz False True ?open)
            \<lparr>activeQuiz := Some scenarioA_quiz, reviewingResult := Some ?r,
             currentQuestionIndex := 0, quizContainer := c,
             currentView := ''student-quiz-section''\<rparr>"
  have active': "activeQuiz (closeConfirmationModal ?s') = Some scenarioA_quiz"
    by (simp add: closeConfirmationModal_def)
  have given: "studentAnswers (closeConfirmationModal ?s') = []"
    by (simp add: closeConfirmationModal_def submitQuiz_clears_answers [OF active])
  have res': "results (closeConfirmationModal ?s') = [?r]"
    by (simp add: closeConfirmationModal_def res)
  have again: "map score (results (confirmSubmission ?s')) = [2, 0] \<and>
         map answers (results (confirmSubmission ?s')) = [[Some ''Paris'', Some ''42''], []] \<and>
         map_option (\<lambda>shown. score (shownResult shown)) (resultsSection (confirmSubmission ?s'))
           = Some 0"
    unfolding confirmSubmission_def submitQuiz_results [OF active']
      submitQuiz_resultsSection [OF active'] res' given
    by (simp add: scenarioA_quiz_def js_get_def)
  show ?thesis
    unfolding forced using active0 dialog res review again
    by (simp add: submitQuiz_deactivates)
qed

lemma reviewAnswersClick_keeps_timer:
  "reviewAnswersClick s = Inr s' \<Longrightarrow> quizTimerInterval s' = quizTimerInterval s"
  by (auto simp: reviewAnswersClick_def startReviewMode_def renderReviewQuestion_def
        showView_def Let_def split: option.splits sum.splits)

text \<open>
  C6. On an active session with a live timer, a tick at or after the deadline is
  \<open>submitQuiz(false, true)\<close>: it appends one result, shown with the time-up notice,
  it clears the interval, removes the anti-cheating listeners and ends the session,
  and every later tick changes nothing, also after the result has been opened for
  review.
\<close>

theorem tick_after_deadline_submits_once:
  assumes active: "activeQuiz s = Some q"
    and armed: "quizTimerInterval s = Some endTime"
    and late: "endTime - now \<le> 0"
  shows "tick now s = submitQuiz False True s \<and>
         (\<exists>r. results (tick now s) = results s @ [r] \<and>
              resultsSection (tick now s) = Some \<lparr>shownResult = r, notice = Timeout\<rparr>) \<and>
         quizTimerInterval (tick now s) = None \<and>
         antiCheatingInstalled (tick now s) = False \<and>
         activeQuiz (tick now s) = None \<and>
         (\<forall>later. tick later (tick now s) = tick now s) \<and>
         (\<forall>later s'. reviewAnswersClick (tick now s) = Inr s' \<longrightarrow> tick later s' = s')"
proof -
  have fire: "tick now s = submitQuiz False True s"
    using armed late by (simp add: tick_def updateTimer_def js_num_nonpos_iff)
  have cleared: "quizTimerInterval (submitQuiz False True s) = None"
    using active by (simp add: submitQuiz_disarms)
  have after: "tick later (submitQuiz False True s) = submitQuiz False True s" for later
    by (simp add: tick_def cleared)
  have review: "tick later s' = s'"
    if "reviewAnswersClick (submitQuiz False True s) = Inr s'" for later s'
    using reviewAnswersClick_keeps_timer [OF that] by (simp add: tick_def cleared)
  show ?thesis
    unfolding fire
    using submitQuiz_results [OF active, of False True]
          submitQuiz_resultsSection [OF active, of False True] after cleared review active
    by (simp add: submitQuiz_deactivates submitQuiz_disarms)
qed

text \<open>
  Scenario B of the specification as an instance of C6: duration one minute, started
  at time 0; a tick just before the deadline changes nothing, the first tick after it
  submits with the time-up notice, and the next tick changes nothing.
\<close>

theorem scenarioB_timeout:
  "activeQuiz scenarioA_started = Some scenarioA_quiz \<and>
   quizTimerInterval scenarioA_started = Some 60000 \<and>
   (60000::int) - 60001 \<le> 0 \<and>
   tick 59999 scenarioA_started = scenarioA_started \<and>
   (\<exists>r. results (tick 60001 scenarioA_started) = [r] \<and>
        resultsSection (tick 60001 scenarioA_started)
          = Some \<lparr>shownResult = r, notice = Timeout\<rparr>) \<and>
   tick 61001 (tick 60001 scenarioA_started) = tick 60001 scenarioA_started \<and>
   quizTimerInterval (tick 60001 scenarioA_started) = None"
proof -
  have active: "activeQuiz scenarioA_started = Some scenarioA_quiz"
    by (simp add: scenarioA_started_def)
  have armed: "quizTimerInterval scenarioA_started = Some 60000"
    by (simp add: scenarioA_started_def)
  have late: "(60000::int) - 60001 \<le> 0"
    by simp
  have early: "tick 59999 scenarioA_started = scenarioA_started"
    by (simp add: tick_def updateTimer_def armed js_num_exact)
  have none: "results scenarioA_started = []"
    by (simp add: scenarioA_started_def newApp_def)
  from tick_after_deadline_submits_once [OF active armed late]
  show ?thesis
    using active armed early by (auto simp: none)
qed


section \<open>Navigation\<close>

lemma navigateQuestion_out_of_range:
  assumes "activeQuiz s = Some q"
    and "\<not> (0 \<le> currentQuestionIndex s + d \<and> currentQuestionIndex s + d < int (length (questions q)))"
  shows "navigateQuestion d s = Inr s"
  using assms by (auto simp: navigateQuestion_def Let_def)

lemma navigateQuestion_in_range:
  assumes "activeQuiz s = Some q"
    and "0 \<le> currentQuestionIndex s + d"
    and "currentQuestionIndex s + d < int (length (questions q))"
  shows "\<exists>c. navigateQuestion d s =
               Inr (s\<lparr>currentQuestionIndex := currentQuestionIndex s + d, quizContainer := c\<rparr>)"
proof -
  let ?i = "currentQuestionIndex s + d"
  have q: "js_get (questions q) ?i = Some (questions q ! nat ?i)"
    using assms by (simp add: js_get_def)
  show ?thesis
  proof (cases "reviewingResult s")
    case None
    have "navigateQuestion d s =
            Inr (s\<lparr>currentQuestionIndex := ?i,
                   quizContainer :=
                     (if html_literal (question (questions q ! nat ?i)) \<and>
                         list_all html_literal (options (questions q ! nat ?i))
                      then QuestionHtml
                             (map (\<lambda>option. \<lparr>input_value = value_attribute option\<rparr>)
                                  (options (questions q ! nat ?i)))
                      else MarkupHtml)\<rparr>)"
      using assms None by (simp add: navigateQuestion_def Let_def renderQuestion_def q)
    then show ?thesis by blast
  next
    case (Some r)
    have "navigateQuestion d s =
            Inr (s\<lparr>currentQuestionIndex := ?i,
                   quizContainer :=
                     ReviewHtml
                       (map (\<lambda>option. li_class option (correctAnswer (questions q ! nat ?i))
                                         (js_get (answers r) ?i))
                            (options (questions q ! nat ?i)))\<rparr>)"
      using assms Some by (simp add: navigateQuestion_def Let_def renderReviewQuestion_def q)
    then show ?thesis by blast
  qed
qed

lemma navigateQuestion_keeps_range:
  assumes active: "activeQuiz s = Some q"
    and lo: "0 \<le> currentQuestionIndex s"
    and hi: "currentQuestionIndex s < int (length (questions q))"
  shows "\<exists>s'. navigateQuestion d s = Inr s' \<and> activeQuiz s' = Some q \<and>
              0 \<le> currentQuestionIndex s' \<and>
              currentQuestionIndex s' < int (length (questions q))"
proof (cases "0 \<le> currentQuestionIndex s + d \<and> currentQuestionIndex s + d < int (length (questions q))")
  case True
  then obtain c where "navigateQuestion d s =
      Inr (s\<lparr>currentQuestionIndex := currentQuestionIndex s + d, quizContainer := c\<rparr>)"
    using navigateQuestion_in_range [OF active] by blast
  then show ?thesis using True active by simp
next
  case False
  then show ?thesis
    using navigateQuestion_out_of_range [OF active False] active lo hi by simp
qed

lemma navigateMany_keeps_range:
  assumes "activeQuiz s = Some q"
    and "0 \<le> currentQuestionIndex s"
    and "currentQuestionIndex s < int (length (questions q))"
  shows "\<exists>s'. navigateMany ds s = Inr s' \<and> activeQuiz s' = Some q \<and>
              0 \<le> currentQuestionIndex s' \<and>
              currentQuestionIndex s' < int (length (questions q))"
  using assms
proof (induction ds arbitrary: s)
  case Nil
  then show ?case by simp
next
  case (Cons d ds)
  from navigateQuestion_keeps_range [OF Cons.prems, of d]
  obtain s1 where step: "navigateQuestion d s = Inr s1"
    and inv: "activeQuiz s1 = Some q" "0 \<le> currentQuestionIndex s1"
             "currentQuestionIndex s1 < int (length (questions q))"
    by blast
  from Cons.IH [OF inv] show ?case by (simp add: step)
qed

lemma navigateMany_next_at_last:
  assumes "activeQuiz s = Some q"
    and "currentQuestionIndex s = int (length (questions q)) - 1"
  shows "navigateMany (replicate n 1) s = Inr s"
proof (induction n)
  case 0
  then show ?case by simp
next
  case (Suc n)
  have "navigateQuestion 1 s = Inr s"
    using assms by (intro navigateQuestion_out_of_range [OF assms(1)]) simp
  then show ?case using Suc by simp
qed

text \<open>
  C3. On an active session whose index is within the questions, \<open>navigateQuestion\<close>
  moves the index by the direction when the new index is within the questions (and
  redraws the question, nothing else changes), and otherwise returns the state as it
  is, without an error: a reject, not a clamp. So going back at index 0 changes
  nothing, any number of steps forward from the last index changes nothing, and after
  any sequence of clicks the index is still within the questions.
\<close>

theorem navigateQuestion_rejects_out_of_range:
  assumes active: "activeQuiz s = Some q"
    and lo: "0 \<le> currentQuestionIndex s"
    and hi: "currentQuestionIndex s < int (length (questions q))"
  shows "(if 0 \<le> currentQuestionIndex s + d \<and>
             currentQuestionIndex s + d < int (length (questions q))
          then \<exists>c. navigateQuestion d s =
                 Inr (s\<lparr>currentQuestionIndex := currentQuestionIndex s + d, quizContainer := c\<rparr>)
          else navigateQuestion d s = Inr s) \<and>
         (currentQuestionIndex s = 0 \<longrightarrow> navigateQuestion (- 1) s = Inr s) \<and>
         (currentQuestionIndex s = int (length (questions q)) - 1 \<longrightarrow>
            navigateMany (replicate n 1) s = Inr s) \<and>
         (\<exists>s'. navigateMany ds s = Inr s' \<and> activeQuiz s' = Some q \<and>
               0 \<le> currentQuestionIndex s' \<and>
               currentQuestionIndex s' < int (length (questions q)))"
proof -
  have step: "if 0 \<le> currentQuestionIndex s + d \<and>
             currentQuestionIndex s + d < int (length (questions q))
          then \<exists>c. navigateQuestion d s =
                 Inr (s\<lparr>currentQuestionIndex := currentQuestionIndex s + d, quizContainer := c\<rparr>)
          else navigateQuestion d s = Inr s"
    using navigateQuestion_in_range [OF active, of d] navigateQuestion_out_of_range [OF active, of d]
    by (simp split: if_splits)
  have first: "currentQuestionIndex s = 0 \<longrightarrow> navigateQuestion (- 1) s = Inr s"
    using navigateQuestion_out_of_range [OF active, of "- 1"] by simp
  have last: "currentQuestionIndex s = int (length (questions q)) - 1 \<longrightarrow>
            navigateMany (replicate n 1) s = Inr s"
    using navigateMany_next_at_last [OF active] by simp
  show ?thesis
    using step first last navigateMany_keeps_range [OF active lo hi, of ds] by simp
qed

text \<open>
  Scenario D of the specification as an instance of C3, on the started two-question
  session: back at index 0 changes nothing, forward moves to index 1, and four
  clicks forward end at index 1.
\<close>

theorem scenarioD_navigation:
  "activeQuiz scenarioA_started = Some scenarioA_quiz \<and>
   currentQuestionIndex scenarioA_started = 0 \<and>
   length (questions scenarioA_quiz) = 2 \<and>
   navigateQuestion (- 1) scenarioA_started = Inr scenarioA_started \<and>
   (\<exists>s'. navigateQuestion 1 scenarioA_started = Inr s' \<and> currentQuestionIndex s' = 1) \<and>
   (\<exists>s'. navigateMany [1, 1, 1, 1] scenarioA_started = Inr s' \<and> currentQuestionIndex s' = 1)"
proof -
  have active: "activeQuiz scenarioA_started = Some scenarioA_quiz"
    by (simp add: scenarioA_started_def)
  have idx: "currentQuestionIndex scenarioA_started = 0"
    by (simp add: scenarioA_started_def newApp_def)
  have two: "length (questions scenarioA_quiz) = 2"
    by (simp add: scenarioA_quiz_def)
  have lo: "0 \<le> currentQuestionIndex scenarioA_started" by (simp add: idx)
  have hi: "currentQuestionIndex scenarioA_started < int (length (questions scenarioA_quiz))"
    by (simp add: idx two)
  from navigateQuestion_rejects_out_of_range [OF active lo hi, of 1 0 "[1, 1, 1, 1]"]
  have fwd: "\<exists>c. navigateQuestion 1 scenarioA_started =
                 Inr (scenarioA_started\<lparr>currentQuestionIndex := 1, quizContainer := c\<rparr>)"
    by (simp add: idx two)
  then obtain c where one: "navigateQuestion 1 scenarioA_started =
                 Inr (scenarioA_started\<lparr>currentQuestionIndex := 1, quizContainer := c\<rparr>)" ..
  let ?s1 = "scenarioA_started\<lparr>currentQuestionIndex := 1, quizContainer := c\<rparr>"
  have active1: "activeQuiz ?s1 = Some scenarioA_quiz" by (simp add: active)
  have "navigateMany (replicate 3 1) ?s1 = Inr ?s1"
    using navigateQuestion_rejects_out_of_range [OF active1, of 0 3 "[]"] by (simp add: two)
  then have many: "navigateMany [1, 1, 1, 1] scenarioA_started = Inr ?s1"
    by (simp add: one numeral_3_eq_3)
  from navigateQuestion_rejects_out_of_range [OF active lo hi, of 0 0 "[]"]
  have bwd: "navigateQuestion (- 1) scenarioA_started = Inr scenarioA_started"
    by (simp add: idx)
  show ?thesis
    using active idx two bwd one many by simp
qed


section \<open>Starting a quiz\<close>

text \<open>
  C9. \<open>startQuiz\<close> on a quiz with at least one question succeeds and leaves the index
  at 0, one unanswered (\<open>null\<close>) entry per question, the anti-cheating listeners
  installed and a live timer whose deadline is the time of the start plus the quiz's
  duration in minutes; on a quiz without questions it throws (\<open>renderQuestion\<close> reads
  \<open>options\<close> of the missing first question). The hypotheses: the timer's first
  update, which runs inside \<open>startQuiz\<close>, reads the clock before the deadline, as it
  does for a positive duration; and the clock, the duration and the deadline are
  not negative and below \<open>2^53\<close>, where the code's doubles are exact.
\<close>

theorem startQuiz_initialises:
  assumes before: "now1 < now0 + duration quiz * 60 * 1000"
    and clock: "0 \<le> now0"
    and minutes: "0 \<le> duration quiz"
    and safe: "now0 + duration quiz * 60 * 1000 < 2 ^ 53"
  shows "if questions quiz = [] then startQuiz quiz now0 now1 s = Inl TypeError
         else (\<exists>s'. startQuiz quiz now0 now1 s = Inr s' \<and>
                    activeQuiz s' = Some quiz \<and>
                    currentQuestionIndex s' = 0 \<and>
                    studentAnswers s' = replicate (length (questions quiz)) None \<and>
                    length (studentAnswers s') = length (questions quiz) \<and>
                    quizTimerInterval s' = Some (now0 + duration quiz * 60 * 1000) \<and>
                    antiCheatingInstalled s' \<and>
                    currentView s' = ''student-quiz-section'' \<and>
                    results s' = results s)"
proof -
  let ?s1 = "s\<lparr>activeQuiz := Some quiz,
               studentAnswers := replicate (length (questions quiz)) None,
               currentQuestionIndex := 0\<rparr>"
  let ?s2 = "installAntiCheating ?s1"
  let ?d = "duration quiz"
  have sixty: "js_num (?d * 60) = ?d * 60"
    using clock minutes safe by (intro js_num_exact) simp
  have ms: "js_num (?d * 60 * 1000) = ?d * 60 * 1000"
    using clock minutes safe by (intro js_num_exact) simp
  have sum: "js_num (now0 + ?d * 60 * 1000) = now0 + ?d * 60 * 1000"
    using clock minutes safe by (intro js_num_exact) simp
  have deadline: "js_num (now0 + js_num (js_num (?d * 60) * 1000)) = now0 + ?d * 60 * 1000"
    by (simp only: sixty ms sum)
  have running: "updateTimer (now0 + ?d * 60 * 1000) now1 x = x" for x
    using before by (simp add: updateTimer_def js_num_nonpos_iff)
  have timer: "startTimer ?d now0 now1 ?s2 =
                 ?s2\<lparr>quizTimerInterval := Some (now0 + ?d * 60 * 1000)\<rparr>"
    unfolding startTimer_def Let_def deadline running
    by (simp add: stopTimer_def)
  show ?thesis
  proof (cases "questions quiz")
    case Nil
    then show ?thesis
      unfolding startQuiz_def Let_def timer
      by (simp add: installAntiCheating_def renderQuestion_def js_get_def)
  next
    case (Cons q qs)
    then show ?thesis
      unfolding startQuiz_def Let_def timer
      by (simp add: installAntiCheating_def renderQuestion_def js_get_def showView_def)
  qed
qed

text \<open>
  Instances of C9: the two-question quiz of scenario A started at time 0 (deadline
  60000 ms), and the quiz without questions.
\<close>

theorem startQuiz_scenario_and_empty:
  "(0::int) < 0 + duration scenarioA_quiz * 60 * 1000 \<and>
   0 \<le> duration scenarioA_quiz \<and>
   0 + duration scenarioA_quiz * 60 * 1000 < 2 ^ 53 \<and>
   questions scenarioA_quiz \<noteq> [] \<and>
   (\<exists>s'. startQuiz scenarioA_quiz 0 0 newApp = Inr s' \<and>
         activeQuiz s' = Some scenarioA_quiz \<and>
         currentQuestionIndex s' = 0 \<and>
         studentAnswers s' = [None, None] \<and>
         quizTimerInterval s' = Some 60000) \<and>
   (0::int) < 0 + duration noQuestions_quiz * 60 * 1000 \<and>
   0 \<le> duration noQuestions_quiz \<and>
   0 + duration noQuestions_quiz * 60 * 1000 < 2 ^ 53 \<and>
   startQuiz noQuestions_quiz 0 0 newApp = Inl TypeError"
proof -
  have one: "duration scenarioA_quiz = 1" and one': "duration noQuestions_quiz = 1"
    by (simp_all add: scenarioA_quiz_def noQuestions_quiz_def)
  have d: "(0::int) < 0 + duration scenarioA_quiz * 60 * 1000"
    and m: "0 \<le> duration scenarioA_quiz"
    and b: "0 + duration scenarioA_quiz * 60 * 1000 < 2 ^ 53"
    by (simp_all add: one)
  have e: "(0::int) < 0 + duration noQuestions_quiz * 60 * 1000"
    and m': "0 \<le> duration noQuestions_quiz"
    and b': "0 + duration noQuestions_quiz * 60 * 1000 < 2 ^ 53"
    by (simp_all add: one')
  have ne: "questions scenarioA_quiz \<noteq> []" and two: "length (questions scenarioA_quiz) = 2"
    by (simp_all add: scenarioA_quiz_def)
  have em: "questions noQuestions_quiz = []"
    by (simp add: noQuestions_quiz_def)
  have z: "(0::int) \<le> 0" by simp
  show ?thesis
    using startQuiz_initialises [OF d z m b, of newApp]
          startQuiz_initialises [OF e z m' b', of newApp] d e
    by (auto simp: ne em two one one' numeral_2_eq_2)
qed


section \<open>Options are identified by their text\<close>

lemma score_forEach_position:
  assumes i: "i < length qs" and len: "length given = length qs"
  shows "score_forEach qs 0 (given[i := a]) 0 =
           score_forEach qs 0 (given[i := None]) 0
           + (if a = Some (correctAnswer (qs ! i)) then 1 else 0)"
proof -
  let ?A = "{k. k < length qs \<and>
                js_get (given[i := a]) (int (0 + k)) = Some (Some (correctAnswer (qs ! k)))}"
  let ?B = "{k. k < length qs \<and>
                js_get (given[i := None]) (int (0 + k)) = Some (Some (correctAnswer (qs ! k)))}"
  have fin: "finite ?B" by simp
  have notin: "i \<notin> ?B"
    using i len by (simp add: js_get_def)
  show ?thesis
  proof (cases "a = Some (correctAnswer (qs ! i))")
    case True
    have "?A = insert i ?B"
      using i len True by (auto simp: js_get_def nth_list_update)
    then have "card ?A = Suc (card ?B)"
      using fin notin by simp
    then show ?thesis
      using True by (simp add: score_forEach_card)
  next
    case False
    have "?A = ?B"
      using i len False by (auto simp: js_get_def nth_list_update)
    then show ?thesis
      using False by (simp add: score_forEach_card)
  qed
qed

lemma li_class_tokens:
  "(''correct'' \<in> set (li_class option correct a) \<longleftrightarrow> option = correct) \<and>
   (''selected'' \<in> set (li_class option correct a) \<longleftrightarrow> a = Some (Some option)) \<and>
   (''incorrect'' \<in> set (li_class option correct a) \<longleftrightarrow> a = Some (Some option) \<and> option \<noteq> correct)"
  by (simp add: li_class_def)

lemma value_attribute_unquoted: "CHR 0x22 \<notin> set text \<Longrightarrow> value_attribute text = text"
  by (auto simp: value_attribute_def takeWhile_eq_all_conv)

text \<open>
  What holds of C10. When the texts of the current question pass through the page
  unchanged (no markup character in them, no double quote in the chosen option),
  choosing the input at position \<open>k\<close> stores the text of option \<open>k\<close>, so two
  positions with the same text store the same answer. In scoring, the position of
  the current question adds one point exactly when the stored text is the correct
  answer. In review, the item of an option is classed \<open>correct\<close> exactly when its
  text is the correct answer, \<open>selected\<close> exactly when its text is the stored answer,
  and \<open>incorrect\<close> exactly when it is selected and not correct.
\<close>

lemma literal_options_identified_by_text:
  assumes active: "activeQuiz s = Some quiz"
    and current: "js_get (questions quiz) (currentQuestionIndex s) = Some q"
    and k: "k < length (options q)"
    and literal: "html_literal (question q)" "list_all html_literal (options q)"
    and unquoted: "CHR 0x22 \<notin> set (options q ! k)"
  shows "(\<exists>s'. renderQuestion s = Inr s' \<and>
              optionChange k s' =
                s'\<lparr>studentAnswers :=
                      js_set (studentAnswers s) (currentQuestionIndex s) (Some (options q ! k))\<rparr> \<and>
              (\<forall>j. j < length (options q) \<and> options q ! j = options q ! k
                    \<longrightarrow> optionChange j s' = optionChange k s')) \<and>
         (length given = length (questions quiz) \<longrightarrow>
            score_forEach (questions quiz) 0
                (js_set given (currentQuestionIndex s) (Some (options q ! k))) 0
              = score_forEach (questions quiz) 0 (js_set given (currentQuestionIndex s) None) 0
                + (if options q ! k = correctAnswer q then 1 else 0)) \<and>
         (\<exists>s' classes.
              renderReviewQuestion (s\<lparr>reviewingResult := Some r\<rparr>) = Inr s' \<and>
              quizContainer s' = ReviewHtml classes \<and>
              length classes = length (options q) \<and>
              (''correct'' \<in> set (classes ! k) \<longleftrightarrow> options q ! k = correctAnswer q) \<and>
              (''selected'' \<in> set (classes ! k) \<longleftrightarrow>
                 js_get (answers r) (currentQuestionIndex s) = Some (Some (options q ! k))) \<and>
              (''incorrect'' \<in> set (classes ! k) \<longleftrightarrow>
                 js_get (answers r) (currentQuestionIndex s) = Some (Some (options q ! k)) \<and>
                 options q ! k \<noteq> correctAnswer q))"
proof -
  let ?i = "currentQuestionIndex s"
  have range: "0 \<le> ?i" "nat ?i < length (questions quiz)" and q: "q = questions quiz ! nat ?i"
    using current by (auto simp: js_get_def split: if_splits)
  let ?inputs = "map (\<lambda>option. \<lparr>input_value = value_attribute option\<rparr>) (options q)"
  have render: "renderQuestion s = Inr (s\<lparr>quizContainer := QuestionHtml ?inputs\<rparr>)"
    using active current literal by (simp add: renderQuestion_def)
  have change: "optionChange j (s\<lparr>quizContainer := QuestionHtml ?inputs\<rparr>) =
                  s\<lparr>quizContainer := QuestionHtml ?inputs,
                    studentAnswers :=
                      js_set (studentAnswers s) ?i (Some (value_attribute (options q ! j)))\<rparr>"
    if "j < length (options q)" for j
    using that by (simp add: optionChange_def)
  have unchanged: "value_attribute (options q ! k) = options q ! k"
    using unquoted by (rule value_attribute_unquoted)
  have store: "\<exists>s'. renderQuestion s = Inr s' \<and>
              optionChange k s' =
                s'\<lparr>studentAnswers := js_set (studentAnswers s) ?i (Some (options q ! k))\<rparr> \<and>
              (\<forall>j. j < length (options q) \<and> options q ! j = options q ! k
                    \<longrightarrow> optionChange j s' = optionChange k s')"
    unfolding render using k by (auto simp: change unchanged)
  have scoring: "length given = length (questions quiz) \<longrightarrow>
            score_forEach (questions quiz) 0 (js_set given ?i (Some (options q ! k))) 0
              = score_forEach (questions quiz) 0 (js_set given ?i None) 0
                + (if options q ! k = correctAnswer q then 1 else 0)"
  proof
    assume len: "length given = length (questions quiz)"
    then have set: "js_set given ?i v = given[nat ?i := v]" for v
      using range by (simp add: js_set_def)
    show "score_forEach (questions quiz) 0 (js_set given ?i (Some (options q ! k))) 0
              = score_forEach (questions quiz) 0 (js_set given ?i None) 0
                + (if options q ! k = correctAnswer q then 1 else 0)"
      unfolding set
      using score_forEach_position [OF range(2) len, of "Some (options q ! k)"]
      by (simp add: q)
  qed
  let ?classes = "map (\<lambda>option. li_class option (correctAnswer q) (js_get (answers r) ?i))
                      (options q)"
  have review: "renderReviewQuestion (s\<lparr>reviewingResult := Some r\<rparr>) =
                  Inr (s\<lparr>reviewingResult := Some r, quizContainer := ReviewHtml ?classes\<rparr>)"
    using active current by (simp add: renderReviewQuestion_def)
  have classes: "\<exists>s' classes.
              renderReviewQuestion (s\<lparr>reviewingResult := Some r\<rparr>) = Inr s' \<and>
              quizContainer s' = ReviewHtml classes \<and>
              length classes = length (options q) \<and>
              (''correct'' \<in> set (classes ! k) \<longleftrightarrow> options q ! k = correctAnswer q) \<and>
              (''selected'' \<in> set (classes ! k) \<longleftrightarrow>
                 js_get (answers r) ?i = Some (Some (options q ! k))) \<and>
              (''incorrect'' \<in> set (classes ! k) \<longleftrightarrow>
                 js_get (answers r) ?i = Some (Some (options q ! k)) \<and>
                 options q ! k \<noteq> correctAnswer q)"
    unfolding review using k by (simp add: li_class_tokens)
  show ?thesis
    using store scoring classes by blast
qed

text \<open>
  An instance: options \<open>A\<close>, \<open>A\<close>, \<open>B\<close> with the correct answer \<open>A\<close>. Choosing
  position 0 or position 1 gives the same state, the submission scores 1 of 1, and
  the review classes both positions \<open>correct\<close> and \<open>selected\<close>.
\<close>

lemma duplicate_options_either_position:
  "activeQuiz duplicate_session = Some duplicate_quiz \<and>
   js_get (questions duplicate_quiz) (currentQuestionIndex duplicate_session) = Some duplicate_mcq \<and>
   options duplicate_mcq = [''A'', ''A'', ''B''] \<and> correctAnswer duplicate_mcq = ''A'' \<and>
   (\<exists>s'. renderQuestion duplicate_session = Inr s' \<and>
         optionChange 0 s' = optionChange 1 s' \<and>
         studentAnswers (optionChange 1 s') = [Some ''A''] \<and>
         (\<exists>r. results (submitQuiz False False (optionChange 1 s')) = [r] \<and>
              score r = 1 \<and> total r = 1 \<and> answers r = [Some ''A''])) \<and>
   (\<exists>s'. renderReviewQuestion (duplicate_session\<lparr>reviewingResult := Some duplicate_result\<rparr>)
           = Inr s' \<and>
         quizContainer s' =
           ReviewHtml [[''option-item'', ''correct'', ''selected''],
                       [''option-item'', ''correct'', ''selected''],
                       [''option-item'']])"
proof -
  have active: "activeQuiz duplicate_session = Some duplicate_quiz"
    by (simp add: duplicate_session_def)
  have current: "js_get (questions duplicate_quiz) (currentQuestionIndex duplicate_session)
                   = Some duplicate_mcq"
    by (simp add: duplicate_session_def newApp_def duplicate_quiz_def js_get_def)
  have opts: "options duplicate_mcq = [''A'', ''A'', ''B'']" "correctAnswer duplicate_mcq = ''A''"
    by (simp_all add: duplicate_mcq_def)
  have k: "1 < length (options duplicate_mcq)"
    by (simp add: opts)
  have literal: "html_literal (question duplicate_mcq)" "list_all html_literal (options duplicate_mcq)"
    by (simp_all add: duplicate_mcq_def html_literal_def)
  have unquoted: "CHR 0x22 \<notin> set (options duplicate_mcq ! 1)"
    by (simp add: opts)
  from literal_options_identified_by_text
         [OF active current k literal unquoted, of "[None]" duplicate_result, THEN conjunct1]
  obtain s' where all: "renderQuestion duplicate_session = Inr s' \<and>
              optionChange 1 s' =
                s'\<lparr>studentAnswers :=
                      js_set (studentAnswers duplicate_session)
                        (currentQuestionIndex duplicate_session)
                        (Some (options duplicate_mcq ! 1))\<rparr> \<and>
              (\<forall>j. j < length (options duplicate_mcq) \<and>
                    options duplicate_mcq ! j = options duplicate_mcq ! 1
                    \<longrightarrow> optionChange j s' = optionChange 1 s')" ..
  have render: "renderQuestion duplicate_session = Inr s'"
    using all by (rule conjunct1)
  have stored: "optionChange 1 s' =
                s'\<lparr>studentAnswers :=
                      js_set (studentAnswers duplicate_session)
                        (currentQuestionIndex duplicate_session)
                        (Some (options duplicate_mcq ! 1))\<rparr>"
    using all by (rule conjunct2 [THEN conjunct1])
  have same: "\<forall>j. j < length (options duplicate_mcq) \<and>
                    options duplicate_mcq ! j = options duplicate_mcq ! 1
                    \<longrightarrow> optionChange j s' = optionChange 1 s'"
    using all by (rule conjunct2 [THEN conjunct2])
  have either: "optionChange 0 s' = optionChange 1 s'"
    using same [rule_format, of 0] by (simp add: opts)
  have given: "studentAnswers (optionChange 1 s') = [Some ''A'']"
    unfolding stored by (simp add: opts duplicate_session_def newApp_def js_set_def)
  have s': "s' = duplicate_session
                   \<lparr>quizContainer :=
                      QuestionHtml [\<lparr>input_value = ''A''\<rparr>, \<lparr>input_value = ''A''\<rparr>,
                                    \<lparr>input_value = ''B''\<rparr>]\<rparr>"
  proof -
    have "renderQuestion duplicate_session =
            Inr (duplicate_session
                   \<lparr>quizContainer :=
                      QuestionHtml [\<lparr>input_value = ''A''\<rparr>, \<lparr>input_value = ''A''\<rparr>,
                                    \<lparr>input_value = ''B''\<rparr>]\<rparr>)"
      by (simp add: renderQuestion_def duplicate_session_def newApp_def duplicate_quiz_def
          duplicate_mcq_def js_get_def html_literal_def value_attribute_def)
    then show ?thesis using render by simp
  qed
  have active': "activeQuiz (optionChange 1 s') = Some duplicate_quiz"
    unfolding stored by (simp add: s' active)
  have none: "results (optionChange 1 s') = []"
    unfolding stored by (simp add: s' duplicate_session_def newApp_def)
  have submitted: "\<exists>r. results (submitQuiz False False (optionChange 1 s')) = [r] \<and>
              score r = 1 \<and> total r = 1 \<and> answers r = [Some ''A'']"
    unfolding submitQuiz_results [OF active'] none given
    by (simp add: duplicate_quiz_def opts js_get_def)
  have review: "\<exists>s'. renderReviewQuestion (duplicate_session\<lparr>reviewingResult := Some duplicate_result\<rparr>)
           = Inr s' \<and>
         quizContainer s' =
           ReviewHtml [[''option-item'', ''correct'', ''selected''],
                       [''option-item'', ''correct'', ''selected''],
                       [''option-item'']]"
    by (simp add: renderReviewQuestion_def li_class_def duplicate_result_def js_get_def
        duplicate_session_def newApp_def duplicate_quiz_def duplicate_mcq_def)
  show ?thesis
    using active current opts render either given submitted review by simp
qed

text \<open>
  C10 on an option with a double quote. The options are \<open>5"\<close> and \<open>6"\<close>, the
  correct answer is \<open>5"\<close>. The code writes \<open>value="5""\<close>, the input reports the
  value \<open>5\<close>, and that is what the listener stores: the taker who chooses the
  correct option scores 0 of 1. The review, which compares the texts themselves,
  classes the first option \<open>correct\<close> and not \<open>selected\<close>.
\<close>

theorem quoted_option_stored_cut:
  "options inch_mcq ! 0 = correctAnswer inch_mcq \<and>
   (\<exists>s'. renderQuestion inch_session = Inr s' \<and>
         quizContainer s' = QuestionHtml [\<lparr>input_value = ''5''\<rparr>, \<lparr>input_value = ''6''\<rparr>] \<and>
         studentAnswers (optionChange 0 s') = [Some ''5''] \<and>
         map score (results (submitQuiz False False (optionChange 0 s'))) = [0] \<and>
         map total (results (submitQuiz False False (optionChange 0 s'))) = [1]) \<and>
   li_class (options inch_mcq ! 0) (correctAnswer inch_mcq) (Some (Some ''5''))
     = [''option-item'', ''correct'']"
proof -
  let ?s' = "inch_session
               \<lparr>quizContainer := QuestionHtml [\<lparr>input_value = ''5''\<rparr>, \<lparr>input_value = ''6''\<rparr>]\<rparr>"
  have render: "renderQuestion inch_session = Inr ?s'"
    by (simp add: renderQuestion_def inch_session_def newApp_def inch_quiz_def inch_mcq_def
        js_get_def html_literal_def value_attribute_def)
  have chosen: "optionChange 0 ?s' = ?s'\<lparr>studentAnswers := [Some ''5'']\<rparr>"
    by (simp add: optionChange_def inch_session_def newApp_def js_set_def)
  have active: "activeQuiz (?s'\<lparr>studentAnswers := [Some ''5'']\<rparr>) = Some inch_quiz"
    by (simp add: inch_session_def)
  have none: "results (?s'\<lparr>studentAnswers := [Some ''5'']\<rparr>) = []"
    by (simp add: inch_session_def newApp_def)
  have submitted: "map score (results (submitQuiz False False (optionChange 0 ?s'))) = [0] \<and>
                   map total (results (submitQuiz False False (optionChange 0 ?s'))) = [1]"
    unfolding chosen submitQuiz_results [OF active] none
    by (simp add: inch_quiz_def inch_mcq_def js_get_def)
  have review: "li_class (options inch_mcq ! 0) (correctAnswer inch_mcq) (Some (Some ''5''))
                  = [''option-item'', ''correct'']"
    by (simp add: li_class_def inch_mcq_def)
  have correct: "options inch_mcq ! 0 = correctAnswer inch_mcq"
    by (simp add: inch_mcq_def)
  show ?thesis
    using render chosen submitted review correct by simp
qed


section \<open>Persistence\<close>

text \<open>
  Reading back what \<open>JSON.stringify\<close> printed gives the value that was printed, for
  every question, quiz, result and stored mapping.
\<close>

lemma those_map_Some: "those (map Some xs) = Some xs"
  by (induction xs) simp_all

lemma MCQ_of_json_inverse: "MCQ_of_json (json_of_MCQ q) = Some q"
  by (cases "explanation q")
     (simp_all add: MCQ_of_json_def json_of_MCQ_def opt_field_def map_add_def o_def
        those_map_Some)

lemma Quiz_of_json_inverse: "Quiz_of_json (json_of_Quiz q) = Some q"
  by (simp add: Quiz_of_json_def json_of_Quiz_def o_def MCQ_of_json_inverse those_map_Some)

lemma answer_of_json_inverse: "answer_of_json (json_of_answer a) = Some a"
  by (cases a) simp_all

lemma StudentResult_of_json_inverse: "StudentResult_of_json (json_of_StudentResult r) = Some r"
  by (cases "studentName r"; cases "studentRoll r"; cases "studentEmail r")
     (simp_all add: StudentResult_of_json_def json_of_StudentResult_def opt_field_def
        map_add_def o_def answer_of_json_inverse those_map_Some)

lemma results_of_json_inverse: "results_of_json (map json_of_StudentResult rs) = Some rs"
  by (simp add: results_of_json_def o_def StudentResult_of_json_inverse those_map_Some)

lemma professors_of_json_inverse: "professors_of_json (\<lambda>k. map_option JStr (p k)) = p"
proof
  fix k show "professors_of_json (\<lambda>k. map_option JStr (p k)) k = p k"
    by (cases "p k") (simp_all add: professors_of_json_def)
qed

lemma quizzes_of_json_inverse: "quizzes_of_json (\<lambda>k. map_option json_of_Quiz (q k)) = q"
proof
  fix k show "quizzes_of_json (\<lambda>k. map_option json_of_Quiz (q k)) k = q k"
    by (cases "q k") (simp_all add: quizzes_of_json_def Quiz_of_json_inverse)
qed

lemma stored_professors_empty: "(\<lambda>k. map_option JStr (p k)) = Map.empty \<longleftrightarrow> p = Map.empty"
  by (auto simp: fun_eq_iff)

lemma loadDataFromStorage_saved:
  "loadDataFromStorage (t\<lparr>localStorage := localStorage (saveDataToStorage s)\<rparr>) =
     (if professors s \<noteq> Map.empty
      then Inr (t\<lparr>localStorage := localStorage (saveDataToStorage s),
                  professors := professors s, quizzes := quizzes s, results := results s\<rparr>)
      else Inr (saveDataToStorage
                  (t\<lparr>localStorage := localStorage (saveDataToStorage s),
                     professors := [''professor@test.com'' \<mapsto> ''password'']\<rparr>)))"
proof (cases "professors s = Map.empty")
  case True
  then show ?thesis
    by (simp add: loadDataFromStorage_def loadProfessors_def loadQuizzes_def loadResults_def
        seedProfessor_def saveDataToStorage_def json_of_professors_def json_of_quizzes_def
        json_of_results_def results_of_json_inverse quizzes_of_json_inverse)
next
  case False
  then show ?thesis
    by (simp add: loadDataFromStorage_def loadProfessors_def loadQuizzes_def loadResults_def
        saveDataToStorage_def json_of_professors_def json_of_quizzes_def
        json_of_results_def results_of_json_inverse quizzes_of_json_inverse
        professors_of_json_inverse stored_professors_empty)
qed

text \<open>
  The professors mapping of a state that the program saves is never empty. It saves
  in four places: when \<open>loadDataFromStorage\<close> seeds the default professor, when a
  professor registers (which adds one), in \<open>createAndSaveQuiz\<close> and in \<open>submitQuiz\<close>;
  the last three come after the constructor's \<open>loadDataFromStorage\<close>. A load on
  the first visit, and a load of what the program has saved, leaves a professor;
  creating a quiz and submitting keep the mapping.
\<close>

lemma loadDataFromStorage_first_visit:
  "localStorage t = Map.empty \<Longrightarrow>
     \<exists>s'. loadDataFromStorage t = Inr s' \<and>
          professors s' = [''professor@test.com'' \<mapsto> ''password'']"
  by (simp add: loadDataFromStorage_def loadProfessors_def loadQuizzes_def loadResults_def
        seedProfessor_def saveDataToStorage_def json_of_quizzes_def json_of_results_def
        results_of_json_inverse)

lemma loadDataFromStorage_leaves_professor:
  assumes "loadDataFromStorage (t\<lparr>localStorage := localStorage (saveDataToStorage s)\<rparr>) = Inr s'"
  shows "professors s' \<noteq> Map.empty"
proof (cases "professors s = Map.empty")
  case True
  then show ?thesis
    using assms unfolding loadDataFromStorage_saved
    by (auto simp: saveDataToStorage_def)
next
  case False
  then show ?thesis
    using assms unfolding loadDataFromStorage_saved by auto
qed

lemma createAndSaveQuiz_keeps_professors:
  "createAndSaveQuiz t qs d draws s = Some s' \<Longrightarrow> professors s' = professors s"
  by (auto simp: createAndSaveQuiz_def saveDataToStorage_def split: option.splits)

text \<open>
  C8. Reloading is
  \<open>loadDataFromStorage\<close> on an application \<open>t\<close> that finds in \<open>localStorage\<close> what
  \<open>saveDataToStorage\<close> wrote for the state \<open>s\<close>; \<open>t\<close> is arbitrary, in particular
  the freshly constructed application. The professors, quizzes and results of \<open>s\<close>
  are reproduced exactly, and every quiz and every result is read back field for
  field. The hypothesis is what holds of every state that the program saves: its
  professors mapping is not empty.
\<close>

theorem reload_after_save:
  assumes "professors s \<noteq> Map.empty"
  shows "Quiz_of_json (json_of_Quiz q) = Some q \<and>
         StudentResult_of_json (json_of_StudentResult r) = Some r \<and>
         loadDataFromStorage (t\<lparr>localStorage := localStorage (saveDataToStorage s)\<rparr>) =
           Inr (t\<lparr>localStorage := localStorage (saveDataToStorage s),
                  professors := professors s, quizzes := quizzes s, results := results s\<rparr>)"
  using assms
  by (simp add: Quiz_of_json_inverse StudentResult_of_json_inverse loadDataFromStorage_saved)

text \<open>
  Instance of C8: the example state, saved and loaded into a fresh application, is
  the saved state itself.
\<close>

theorem reload_stored_example:
  "professors stored_example \<noteq> Map.empty \<and>
   loadDataFromStorage (newApp\<lparr>localStorage := localStorage (saveDataToStorage stored_example)\<rparr>)
     = Inr (saveDataToStorage stored_example)"
proof -
  have nonempty: "professors stored_example \<noteq> Map.empty"
    by (simp add: stored_example_def)
  have fresh: "newApp\<lparr>localStorage := localStorage (saveDataToStorage stored_example),
                       professors := professors stored_example,
                       quizzes := quizzes stored_example,
                       results := results stored_example\<rparr>
               = saveDataToStorage stored_example"
    by (simp add: saveDataToStorage_def stored_example_def)
  from reload_after_save [OF nonempty, of scenarioA_quiz duplicate_result newApp]
  show ?thesis
    using nonempty by (simp add: fresh)
qed

text \<open>
  No state that the program saves has an empty professors mapping; the state of the
  field initialisers has. If that state is saved, \<open>loadDataFromStorage\<close> finds a
  stored object without keys and seeds the default professor.
\<close>

lemma reload_empty_professors_seeds_default:
  "loadDataFromStorage (newApp\<lparr>localStorage := localStorage (saveDataToStorage newApp)\<rparr>)
     = Inr (seedProfessor (newApp\<lparr>localStorage := localStorage (saveDataToStorage newApp)\<rparr>)) \<and>
   professors (seedProfessor (newApp\<lparr>localStorage := localStorage (saveDataToStorage newApp)\<rparr>))
      ''professor@test.com'' = Some ''password'' \<and>
   professors newApp ''professor@test.com'' = None"
proof -
  have empty: "professors newApp = Map.empty"
    by (simp add: newApp_def)
  have seeded: "professors (seedProfessor x) ''professor@test.com'' = Some ''password''" for x
    by (simp add: seedProfessor_def saveDataToStorage_def)
  have load: "loadDataFromStorage (newApp\<lparr>localStorage := localStorage (saveDataToStorage newApp)\<rparr>)
     = Inr (seedProfessor (newApp\<lparr>localStorage := localStorage (saveDataToStorage newApp)\<rparr>))"
    unfolding loadDataFromStorage_saved by (simp add: empty seedProfessor_def)
  show ?thesis
    unfolding load by (simp add: seeded empty)
qed

text \<open>
  On that branch the seeding saves before the quizzes are read: a fresh application
  that finds quizzes but no professor stores its own empty quizzes over them.
\<close>

lemma reload_without_professors_drops_quizzes:
  "\<exists>s'. loadDataFromStorage
           (newApp\<lparr>localStorage :=
                     localStorage (saveDataToStorage
                                     (newApp\<lparr>quizzes := [''ABC123'' \<mapsto> scenarioA_quiz]\<rparr>))\<rparr>)
         = Inr s' \<and> quizzes s' = Map.empty"
  by (simp add: loadDataFromStorage_def loadProfessors_def loadQuizzes_def loadResults_def
        seedProfessor_def saveDataToStorage_def json_of_professors_def json_of_quizzes_def
        json_of_results_def results_of_json_def quizzes_of_json_def newApp_def fun_eq_iff)


section \<open>Quiz codes\<close>

text \<open>
  The loop of \<open>createAndSaveQuiz\<close> returns as soon as a draw gives a code that is not
  a key of \<open>quizzes\<close>, and the code it returns is not a key of \<open>quizzes\<close> and has at
  most six characters.
\<close>

lemma newQuizId_loop_fresh:
  "newQuizId_loop draws qs = Some i \<Longrightarrow>
     qs i = None \<and> (\<exists>r \<in> set draws. i = toUpperCase (substring r 2 8)) \<and> length i \<le> 6"
  by (induction draws) (auto simp: Let_def substring_def toUpperCase_def split: if_splits)

lemma newQuizId_loop_returns:
  "\<exists>r \<in> set draws. qs (toUpperCase (substring r 2 8)) = None \<Longrightarrow>
     \<exists>i. newQuizId_loop draws qs = Some i"
  by (induction draws) (auto simp: Let_def)

lemma createAndSaveQuiz_fresh_id:
  assumes "createAndSaveQuiz t qs d draws s = Some s'"
  shows "\<exists>i. quizzes s i = None \<and> length i \<le> 6 \<and>
             quizzes s' = (quizzes s)(i \<mapsto> \<lparr>id' = i, title = t, questions = qs, duration = d\<rparr>)"
  using assms newQuizId_loop_fresh [of draws "quizzes s"]
  by (auto simp: createAndSaveQuiz_def saveDataToStorage_def split: option.splits)

text \<open>
  C7 at the draws \<open>"0.i"\<close> (the number 0.5 in base 36) and \<open>"0"\<close> (the number 0):
  the code has one character, respectively none, not six.
\<close>

theorem createAndSaveQuiz_short_code:
  "newQuizId_loop [''0.i''] (quizzes newApp) = Some ''I'' \<and>
   newQuizId_loop [''0''] (quizzes newApp) = Some [] \<and>
   map_option (\<lambda>s'. map_option id' (quizzes s' ''I''))
      (createAndSaveQuiz ''Quiz'' [duplicate_mcq] 1 [''0.i''] newApp) = Some (Some ''I'')"
  by (simp add: createAndSaveQuiz_def saveDataToStorage_def newApp_def Let_def substring_def
      toUpperCase_def toUpperCase_char_def)

end
